theory Spec2Isabelle
  imports Complex_Main "HOL-Library.AList" "HOL-Library.Log_Nat"
begin

section \<open>JavaScript values\<close>

text \<open>
  The three views are Svelte components written in untyped TypeScript. Strings are
  \<^typ>\<open>string\<close>, arrays are lists, and an object whose fields are not fixed by the
  code (a chat record, the filter object handed to the search API) is an association
  list from field names to values, in insertion order. Numbers that the views only
  pass around are integers; the numbers that the mistake book computes with are
  double-precision floats.
\<close>

datatype js_value =
    JUndefined
  | JNull
  | JBool bool
  | JNum int
  | JStr string
  | JArr "js_value list"
  | JObj "(string \<times> js_value) list"

type_synonym js_object = "(string \<times> js_value) list"

text \<open>Truthiness, as \<open>if (v)\<close>, \<open>!v\<close> and \<open>v || w\<close> test it.\<close>

fun truthy :: "js_value \<Rightarrow> bool" where
  "truthy JUndefined = False"
| "truthy JNull = False"
| "truthy (JBool b) = b"
| "truthy (JNum n) = (n \<noteq> 0)"
| "truthy (JStr s) = (s \<noteq> [])"
| "truthy (JArr xs) = True"
| "truthy (JObj kvs) = True"

text \<open>\<open>a || b\<close>: the left operand when it is truthy, the right operand otherwise.\<close>

definition js_or :: "js_value \<Rightarrow> js_value \<Rightarrow> js_value" where
  "js_or a b = (if truthy a then a else b)"

text \<open>\<open>obj.name\<close>: the field's value, \<open>undefined\<close> when the object has no such field.\<close>

definition get_field :: "js_object \<Rightarrow> string \<Rightarrow> js_value" where
  "get_field obj name = (case map_of obj name of None \<Rightarrow> JUndefined | Some v \<Rightarrow> v)"

text \<open>
  \<open>obj.name = v\<close> on an object literal under construction, and the trailing
  \<open>name: v\<close> of \<open>{...obj, name: v}\<close>: an existing field keeps its position and takes the
  new value, a new field is appended.
\<close>

definition set_field :: "string \<Rightarrow> js_value \<Rightarrow> js_object \<Rightarrow> js_object" where
  "set_field name v obj = AList.update name v obj"

text \<open>
  A call to a remote API either rejects with an error or resolves with a value:
  \<open>Inl\<close> is the rejection that the \<open>catch\<close> block receives.
\<close>

datatype api_error = ApiError string

type_synonym 'a api_result = "api_error + 'a"

section \<open>Result annotation (search view and mistake book)\<close>

text \<open>
  Both views map the fetched chats with
  \<open>chat => ({...chat, time_range: getTimeRange(chat.updated_at)})\<close>.
  \<open>getTimeRange\<close> is imported from the utilities; it is a parameter here.
\<close>

type_synonym chat = js_object

definition annotate_chat :: "(js_value \<Rightarrow> string) \<Rightarrow> chat \<Rightarrow> chat" where
  "annotate_chat getTimeRange c =
     set_field ''time_range'' (JStr (getTimeRange (get_field c ''updated_at''))) c"

definition annotate :: "(js_value \<Rightarrow> string) \<Rightarrow> chat list \<Rightarrow> chat list" where
  "annotate getTimeRange results = map (annotate_chat getTimeRange) results"

text \<open>
  The same expression over an explicit store, to speak about mutation: the store is the
  list of allocated objects, a reference is an index into it, an array of objects is a
  list of references. Each object literal allocates a new object at the end of the
  store; \<open>map\<close> visits the array from left to right and returns a new array.
\<close>

type_synonym store = "js_object list"

fun annotate_store :: "(js_value \<Rightarrow> string) \<Rightarrow> store \<Rightarrow> nat list \<Rightarrow> store \<times> nat list" where
  "annotate_store getTimeRange h [] = (h, [])"
| "annotate_store getTimeRange h (r # rs) =
     (let h1 = h @ [annotate_chat getTimeRange (h ! r)];
          (h2, out) = annotate_store getTimeRange h1 rs
      in (h2, length h # out))"

section \<open>The metadata search view\<close>

datatype search_toast =
    Toast_search_found nat
  | Toast_search_failed

record search_state =
  searchResults :: "chat list"
  loading :: bool
  searchPerformed :: bool
  selectedSubject :: string
  selectedKnowledgePoints :: "string list"
  selectedTags :: "string list"
  showSubjectDropdown :: bool
  showKnowledgePointsDropdown :: bool
  showTagsDropdown :: bool
  toasts :: "search_toast list"

text \<open>The component's state when it is mounted.\<close>

definition initial_search_state :: search_state where
  "initial_search_state =
     \<lparr> searchResults = [], loading = False, searchPerformed = False,
       selectedSubject = [], selectedKnowledgePoints = [], selectedTags = [],
       showSubjectDropdown = False, showKnowledgePointsDropdown = False,
       showTagsDropdown = False, toasts = [] \<rparr>"

text \<open>
  The filter object that \<open>performSearch\<close> builds before it calls the search API
  (the spec's \<open>buildCriteria\<close>): it starts empty and receives one field per facet
  that passes its test.
\<close>

definition filters :: "search_state \<Rightarrow> js_object" where
  "filters s =
     (let f0 = [];
          f1 = (if truthy (JStr (selectedSubject s))
                then set_field ''subject'' (JStr (selectedSubject s)) f0 else f0);
          f2 = (if length (selectedKnowledgePoints s) > 0
                then set_field ''knowledge_points''
                       (JArr (map JStr (selectedKnowledgePoints s))) f1
                else f1);
          f3 = (if length (selectedTags s) > 0
                then set_field ''tags'' (JArr (map JStr (selectedTags s))) f2 else f2)
      in f3)"

text \<open>
  \<open>performSearch\<close> runs up to the \<open>await\<close>, is suspended while the search API works,
  and is resumed with the outcome. A resolved value is the array of chats, or a falsy
  value (\<open>None\<close>), which the \<open>if (results)\<close> test skips.
\<close>

definition performSearch_begin :: "search_state \<Rightarrow> js_object \<times> search_state" where
  "performSearch_begin s =
     (let s1 = s\<lparr>loading := True, searchPerformed := True\<rparr>
      in (filters s1, s1))"

definition performSearch_resume ::
  "(js_value \<Rightarrow> string) \<Rightarrow> chat list option api_result \<Rightarrow> search_state \<Rightarrow> search_state" where
  "performSearch_resume getTimeRange outcome s =
     (case outcome of
        Inl err \<Rightarrow> s\<lparr>toasts := toasts s @ [Toast_search_failed], loading := False\<rparr>
      | Inr None \<Rightarrow> s\<lparr>loading := False\<rparr>
      | Inr (Some results) \<Rightarrow>
          (let found = annotate getTimeRange results
           in s\<lparr>searchResults := found,
                toasts := toasts s @ [Toast_search_found (length found)],
                loading := False\<rparr>))"

definition performSearch ::
  "(js_object \<Rightarrow> chat list option api_result) \<Rightarrow> (js_value \<Rightarrow> string) \<Rightarrow>
   search_state \<Rightarrow> search_state" where
  "performSearch searchChatsByMetadata getTimeRange s =
     (let (f, s1) = performSearch_begin s
      in performSearch_resume getTimeRange (searchChatsByMetadata f) s1)"

definition clearFilters :: "search_state \<Rightarrow> search_state" where
  "clearFilters s =
     s\<lparr>selectedSubject := [], selectedKnowledgePoints := [], selectedTags := [],
       searchResults := [], searchPerformed := False\<rparr>"

definition removeKnowledgePoint :: "string \<Rightarrow> search_state \<Rightarrow> search_state" where
  "removeKnowledgePoint kp s =
     s\<lparr>selectedKnowledgePoints := filter (\<lambda>item. item \<noteq> kp) (selectedKnowledgePoints s)\<rparr>"

definition removeTag :: "string \<Rightarrow> search_state \<Rightarrow> search_state" where
  "removeTag tag s = s\<lparr>selectedTags := filter (\<lambda>item. item \<noteq> tag) (selectedTags s)\<rparr>"

definition addKnowledgePoint :: "string \<Rightarrow> search_state \<Rightarrow> search_state" where
  "addKnowledgePoint kp s =
     (let s1 = (if kp \<notin> set (selectedKnowledgePoints s)
                then s\<lparr>selectedKnowledgePoints := selectedKnowledgePoints s @ [kp]\<rparr>
                else s)
      in s1\<lparr>showKnowledgePointsDropdown := False\<rparr>)"

definition addTag :: "string \<Rightarrow> search_state \<Rightarrow> search_state" where
  "addTag tag s =
     (let s1 = (if tag \<notin> set (selectedTags s)
                then s\<lparr>selectedTags := selectedTags s @ [tag]\<rparr>
                else s)
      in s1\<lparr>showTagsDropdown := False\<rparr>)"

text \<open>
  The reactive flag
  \<open>selectedSubject || selectedKnowledgePoints.length > 0 || selectedTags.length > 0\<close>.
  Its value is the subject string when that is non-empty and a boolean otherwise; the
  markup reads it through \<open>!hasFilters\<close> and \<open>{#if hasFilters}\<close> only.
\<close>

definition hasFilters :: "search_state \<Rightarrow> js_value" where
  "hasFilters s =
     js_or (js_or (JStr (selectedSubject s))
                  (JBool (length (selectedKnowledgePoints s) > 0)))
           (JBool (length (selectedTags s) > 0))"

text \<open>
  A user session on the two multi-valued facets: a sequence of calls of the four
  functions above, applied from left to right.
\<close>

datatype facet_call =
    AddKnowledgePoint string
  | RemoveKnowledgePoint string
  | AddTag string
  | RemoveTag string

fun apply_call :: "facet_call \<Rightarrow> search_state \<Rightarrow> search_state" where
  "apply_call (AddKnowledgePoint kp) s = addKnowledgePoint kp s"
| "apply_call (RemoveKnowledgePoint kp) s = removeKnowledgePoint kp s"
| "apply_call (AddTag tag) s = addTag tag s"
| "apply_call (RemoveTag tag) s = removeTag tag s"

definition run_calls :: "facet_call list \<Rightarrow> search_state \<Rightarrow> search_state" where
  "run_calls calls s = fold apply_call calls s"

text \<open>
  \<open>added_and_kept add remove calls\<close>: the sequence holds an occurrence of the call
  \<open>add\<close> that no occurrence of the call \<open>remove\<close> follows.
\<close>

fun added_and_kept :: "facet_call \<Rightarrow> facet_call \<Rightarrow> facet_call list \<Rightarrow> bool" where
  "added_and_kept add remove [] = False"
| "added_and_kept add remove (c # cs) =
     ((c = add \<and> remove \<notin> set cs) \<or> added_and_kept add remove cs)"

section \<open>The chat summary modal\<close>

text \<open>
  \<open>String.prototype.trim\<close> removes the white space and line terminators at both ends
  of a string. Characters here are the code units below 256: the white-space ones are
  TAB, LF, VT, FF, CR, SPACE and the no-break space.
\<close>

definition is_whitespace :: "char \<Rightarrow> bool" where
  "is_whitespace c =
     (c = CHR 0x09 \<or> c = CHR 0x0A \<or> c = CHR 0x0B \<or> c = CHR 0x0C \<or> c = CHR 0x0D
      \<or> c = CHR 0x20 \<or> c = CHR 0xA0)"

definition trim :: "string \<Rightarrow> string" where
  "trim s = rev (dropWhile is_whitespace (rev (dropWhile is_whitespace s)))"

text \<open>\<open>xs.filter((x, i) => p(x, i))\<close>: the callback also receives the element's index.\<close>

definition filter_indexed :: "('a \<Rightarrow> nat \<Rightarrow> bool) \<Rightarrow> 'a list \<Rightarrow> 'a list" where
  "filter_indexed p xs = map fst (filter (\<lambda>(x, i). p x i) (zip xs [0..<length xs]))"

record summary_data =
  subject :: string
  knowledge_points :: "string list"
  summary :: string
  tags :: "string list"

text \<open>
  The \<open>existingSummary\<close> property comes from the parent component; it is \<open>null\<close> or an
  object, and the modal reads each of its fields through \<open>existingSummary?.field || default\<close>,
  so a field may be missing.
\<close>

record existing_summary =
  existing_subject :: "string option"
  existing_knowledge_points :: "string list option"
  existing_summary_text :: "string option"
  existing_tags :: "string list option"

datatype modal_toast =
    Toast_summary_generated
  | Toast_generate_failed
  | Toast_summary_saved
  | Toast_save_failed

text \<open>
  The modal's state. \<open>show_modal\<close> and \<open>loading_modal\<close> are the source's \<open>show\<close> and
  \<open>loading\<close>; \<open>dispatched\<close> collects the events sent to the parent with \<open>dispatch\<close>.
\<close>

record modal_state =
  show_modal :: bool
  chatId :: string
  existingSummary :: "existing_summary option"
  loading_modal :: bool
  summaryData :: summary_data
  newKnowledgePoint :: string
  newTag :: string
  toasts_modal :: "modal_toast list"
  dispatched :: "(string \<times> summary_data) list"

definition initial_modal_state :: "string \<Rightarrow> existing_summary option \<Rightarrow> modal_state" where
  "initial_modal_state cid existing =
     \<lparr> show_modal = False, chatId = cid, existingSummary = existing, loading_modal = False,
       summaryData = \<lparr> subject = [], knowledge_points = [], summary = [], tags = [] \<rparr>,
       newKnowledgePoint = [], newTag = [], toasts_modal = [], dispatched = [] \<rparr>"

text \<open>
  \<open>generateSummary\<close>: the summarization API resolves with a summary object or with a
  falsy value (\<open>None\<close>), or rejects.
\<close>

definition generateSummary_resume ::
  "summary_data option api_result \<Rightarrow> modal_state \<Rightarrow> modal_state" where
  "generateSummary_resume outcome s =
     (case outcome of
        Inl err \<Rightarrow> s\<lparr>toasts_modal := toasts_modal s @ [Toast_generate_failed],
                     loading_modal := False\<rparr>
      | Inr None \<Rightarrow> s\<lparr>loading_modal := False\<rparr>
      | Inr (Some result) \<Rightarrow>
          s\<lparr>summaryData :=
               result\<lparr>tags := (case existingSummary s of
                                  None \<Rightarrow> []
                                | Some e \<Rightarrow> (case existing_tags e of None \<Rightarrow> [] | Some t \<Rightarrow> t))\<rparr>,
            toasts_modal := toasts_modal s @ [Toast_summary_generated],
            loading_modal := False\<rparr>)"

definition generateSummary ::
  "(string \<Rightarrow> summary_data option api_result) \<Rightarrow> modal_state \<Rightarrow> modal_state" where
  "generateSummary summarizeChatById s =
     (if \<not> truthy (JStr (chatId s)) then s
      else let s1 = s\<lparr>loading_modal := True\<rparr>
           in generateSummary_resume (summarizeChatById (chatId s1)) s1)"

text \<open>
  \<open>saveSummary\<close>: the update API receives the chat identifier and the object
  \<open>{subject, knowledge_points, tags}\<close> read from \<open>summaryData\<close>; its resolved value is
  tested for truthiness only.
\<close>

definition saveSummary_resume :: "js_value api_result \<Rightarrow> modal_state \<Rightarrow> modal_state" where
  "saveSummary_resume outcome s =
     (case outcome of
        Inl err \<Rightarrow> s\<lparr>toasts_modal := toasts_modal s @ [Toast_save_failed],
                     loading_modal := False\<rparr>
      | Inr result \<Rightarrow>
          (if truthy result
           then s\<lparr>toasts_modal := toasts_modal s @ [Toast_summary_saved],
                  dispatched := dispatched s @ [(''updated'', summaryData s)],
                  show_modal := False,
                  loading_modal := False\<rparr>
           else s\<lparr>loading_modal := False\<rparr>))"

definition saveSummary ::
  "(string \<Rightarrow> string \<times> string list \<times> string list \<Rightarrow> js_value api_result) \<Rightarrow>
   modal_state \<Rightarrow> modal_state" where
  "saveSummary updateChatSummaryById s =
     (if \<not> truthy (JStr (chatId s)) then s
      else let s1 = s\<lparr>loading_modal := True\<rparr>
           in saveSummary_resume
                (updateChatSummaryById (chatId s1)
                   (subject (summaryData s1), knowledge_points (summaryData s1),
                    tags (summaryData s1)))
                s1)"

text \<open>
  The modal's own add and remove functions (the suffix tells them from the search
  view's): adding reads the bound input field, removing takes the position of the
  chip that was clicked.
\<close>

definition addKnowledgePoint_modal :: "modal_state \<Rightarrow> modal_state" where
  "addKnowledgePoint_modal s =
     (if truthy (JStr (trim (newKnowledgePoint s)))
         \<and> trim (newKnowledgePoint s) \<notin> set (knowledge_points (summaryData s))
      then s\<lparr>summaryData :=
               (summaryData s)\<lparr>knowledge_points :=
                  knowledge_points (summaryData s) @ [trim (newKnowledgePoint s)]\<rparr>,
             newKnowledgePoint := []\<rparr>
      else s)"

definition removeKnowledgePoint_modal :: "nat \<Rightarrow> modal_state \<Rightarrow> modal_state" where
  "removeKnowledgePoint_modal index s =
     s\<lparr>summaryData :=
         (summaryData s)\<lparr>knowledge_points :=
            filter_indexed (\<lambda>x i. i \<noteq> index) (knowledge_points (summaryData s))\<rparr>\<rparr>"

definition addTag_modal :: "modal_state \<Rightarrow> modal_state" where
  "addTag_modal s =
     (if truthy (JStr (trim (newTag s))) \<and> trim (newTag s) \<notin> set (tags (summaryData s))
      then s\<lparr>summaryData := (summaryData s)\<lparr>tags := tags (summaryData s) @ [trim (newTag s)]\<rparr>,
             newTag := []\<rparr>
      else s)"

definition removeTag_modal :: "nat \<Rightarrow> modal_state \<Rightarrow> modal_state" where
  "removeTag_modal index s =
     s\<lparr>summaryData :=
         (summaryData s)\<lparr>tags := filter_indexed (\<lambda>x i. i \<noteq> index) (tags (summaryData s))\<rparr>\<rparr>"

text \<open>
  A user session on the modal's two lists: typing a text into the bound input and
  triggering the add function, or clicking the remove button of the chip at a position.
\<close>

datatype modal_call =
    Modal_add_knowledge_point string
  | Modal_remove_knowledge_point nat
  | Modal_add_tag string
  | Modal_remove_tag nat

fun apply_modal_call :: "modal_call \<Rightarrow> modal_state \<Rightarrow> modal_state" where
  "apply_modal_call (Modal_add_knowledge_point v) s =
     addKnowledgePoint_modal (s\<lparr>newKnowledgePoint := v\<rparr>)"
| "apply_modal_call (Modal_remove_knowledge_point i) s = removeKnowledgePoint_modal i s"
| "apply_modal_call (Modal_add_tag v) s = addTag_modal (s\<lparr>newTag := v\<rparr>)"
| "apply_modal_call (Modal_remove_tag i) s = removeTag_modal i s"

definition run_modal_calls :: "modal_call list \<Rightarrow> modal_state \<Rightarrow> modal_state" where
  "run_modal_calls calls s = fold apply_modal_call calls s"

section \<open>JavaScript numbers\<close>

text \<open>
  The mistake book computes with numbers, which are IEEE 754 double-precision floats:
  a finite value, an infinity, or NaN. A finite double is the rational it denotes;
  the two zeros are one value here, since they differ only as divisors and in the
  sign of a zero result.
\<close>

datatype js_num = Finite rat | PosInf | NegInf | NaN

definition pow2 :: "int \<Rightarrow> rat" where
  "pow2 e = (if 0 \<le> e then of_int (2 ^ nat e) else 1 / of_int (2 ^ nat (- e)))"

text \<open>\<open>floor_log2 a\<close> is the integer \<open>e\<close> with \<open>2^e \<le> a < 2^(e+1)\<close>, for \<open>a > 0\<close>.\<close>

definition floor_log2 :: "rat \<Rightarrow> int" where
  "floor_log2 a = (if 1 \<le> a then bitlen \<lfloor>a\<rfloor> - 1 else - bitlen (\<lceil>1 / a\<rceil> - 1))"

definition round_half_even :: "rat \<Rightarrow> int" where
  "round_half_even y =
     (let f = \<lfloor>y\<rfloor>; r = y - of_int f
      in if r < 1 / 2 then f else if 1 / 2 < r then f + 1 else if even f then f else f + 1)"

text \<open>
  The double nearest to a rational, ties to the even significand: 53 significant bits,
  the smallest spacing \<open>2^-1074\<close>, and an infinity when the rounded magnitude reaches
  \<open>2^1024\<close>. Every arithmetic operation returns the exact result rounded in this way.
\<close>

definition round_double :: "rat \<Rightarrow> js_num" where
  "round_double x =
     (if x = 0 then Finite 0
      else let a = \<bar>x\<bar>;
               q = max (floor_log2 a - 52) (- 1074);
               y = of_int (round_half_even (a / pow2 q)) * pow2 q
           in if y \<noteq> 0 \<and> 1024 \<le> floor_log2 y then (if 0 < x then PosInf else NegInf)
              else Finite (if 0 < x then y else - y))"

fun js_add :: "js_num \<Rightarrow> js_num \<Rightarrow> js_num" where
  "js_add NaN b = NaN"
| "js_add a NaN = NaN"
| "js_add PosInf NegInf = NaN"
| "js_add NegInf PosInf = NaN"
| "js_add PosInf b = PosInf"
| "js_add a PosInf = PosInf"
| "js_add NegInf b = NegInf"
| "js_add a NegInf = NegInf"
| "js_add (Finite a) (Finite b) = round_double (a + b)"

fun js_sub :: "js_num \<Rightarrow> js_num \<Rightarrow> js_num" where
  "js_sub NaN b = NaN"
| "js_sub a NaN = NaN"
| "js_sub PosInf PosInf = NaN"
| "js_sub NegInf NegInf = NaN"
| "js_sub PosInf b = PosInf"
| "js_sub a PosInf = NegInf"
| "js_sub NegInf b = NegInf"
| "js_sub a NegInf = PosInf"
| "js_sub (Finite a) (Finite b) = round_double (a - b)"

fun js_mul :: "js_num \<Rightarrow> js_num \<Rightarrow> js_num" where
  "js_mul NaN b = NaN"
| "js_mul a NaN = NaN"
| "js_mul (Finite a) (Finite b) = round_double (a * b)"
| "js_mul (Finite a) PosInf = (if a = 0 then NaN else if 0 < a then PosInf else NegInf)"
| "js_mul (Finite a) NegInf = (if a = 0 then NaN else if 0 < a then NegInf else PosInf)"
| "js_mul PosInf (Finite b) = (if b = 0 then NaN else if 0 < b then PosInf else NegInf)"
| "js_mul NegInf (Finite b) = (if b = 0 then NaN else if 0 < b then NegInf else PosInf)"
| "js_mul PosInf PosInf = PosInf"
| "js_mul PosInf NegInf = NegInf"
| "js_mul NegInf PosInf = NegInf"
| "js_mul NegInf NegInf = PosInf"

text \<open>
  \<open>a / b\<close>. A division by zero raises nothing in JavaScript and yields an infinity or
  NaN; \<open>js_divide\<close> returns \<open>None\<close> there, so that a zero divisor shows in the result.
\<close>

fun js_divide :: "js_num \<Rightarrow> js_num \<Rightarrow> js_num option" where
  "js_divide a (Finite b) =
     (if b = 0 then None
      else Some (case a of
                   Finite x \<Rightarrow> round_double (x / b)
                 | PosInf \<Rightarrow> if 0 < b then PosInf else NegInf
                 | NegInf \<Rightarrow> if 0 < b then NegInf else PosInf
                 | NaN \<Rightarrow> NaN))"
| "js_divide (Finite x) PosInf = Some (Finite 0)"
| "js_divide (Finite x) NegInf = Some (Finite 0)"
| "js_divide a b = Some NaN"

text \<open>\<open>a > b\<close>: false as soon as one side is NaN.\<close>

fun js_greater :: "js_num \<Rightarrow> js_num \<Rightarrow> bool" where
  "js_greater NaN b = False"
| "js_greater a NaN = False"
| "js_greater (Finite a) (Finite b) = (b < a)"
| "js_greater PosInf PosInf = False"
| "js_greater PosInf b = True"
| "js_greater NegInf b = False"
| "js_greater (Finite a) PosInf = False"
| "js_greater (Finite a) NegInf = True"

text \<open>
  \<open>Math.round\<close>: the nearest integer, a half towards plus infinity; the result is
  exact. Infinities and NaN are returned as they are.
\<close>

fun Math_round :: "js_num \<Rightarrow> js_num" where
  "Math_round (Finite x) = Finite (of_int \<lfloor>x + 1 / 2\<rfloor>)"
| "Math_round a = a"

section \<open>The mistake book\<close>

text \<open>
  The statistics API returns one entry per subject; the field \<open>knowledge_points_stats\<close>
  is the source's \<open>knowledge_points\<close>.
\<close>

record subject_stats =
  mistakes :: js_num
  total :: js_num
  knowledge_points_stats :: "string list"

datatype mistake_toast = Toast_load_failed

record mistake_state =
  mistakeChats :: "chat list"
  subjectStats :: "(string \<times> subject_stats) list"
  loading_mistakes :: bool
  toasts_mistakes :: "mistake_toast list"

text \<open>\<open>Promise.all\<close> of two calls resolves with both values and rejects when one rejects.\<close>

definition Promise_all :: "'a api_result \<Rightarrow> 'b api_result \<Rightarrow> ('a \<times> 'b) api_result" where
  "Promise_all a b =
     (case a of
        Inl err \<Rightarrow> Inl err
      | Inr x \<Rightarrow> (case b of Inl err \<Rightarrow> Inl err | Inr y \<Rightarrow> Inr (x, y)))"

definition loadData_resume ::
  "(js_value \<Rightarrow> string) \<Rightarrow>
   (chat list option \<times> (string \<times> subject_stats) list option) api_result \<Rightarrow>
   mistake_state \<Rightarrow> mistake_state" where
  "loadData_resume getTimeRange outcome s =
     (case outcome of
        Inl err \<Rightarrow> s\<lparr>toasts_mistakes := toasts_mistakes s @ [Toast_load_failed],
                     loading_mistakes := False\<rparr>
      | Inr (mistakesRes, statsRes) \<Rightarrow>
          (let s1 = (case mistakesRes of
                       None \<Rightarrow> s
                     | Some ms \<Rightarrow> s\<lparr>mistakeChats := annotate getTimeRange ms\<rparr>);
               s2 = (case statsRes of None \<Rightarrow> s1 | Some st \<Rightarrow> s1\<lparr>subjectStats := st\<rparr>)
           in s2\<lparr>loading_mistakes := False\<rparr>))"

definition loadData ::
  "chat list option api_result \<Rightarrow> (string \<times> subject_stats) list option api_result \<Rightarrow>
   (js_value \<Rightarrow> string) \<Rightarrow> mistake_state \<Rightarrow> mistake_state" where
  "loadData getMistakeChats getSubjectStatistics getTimeRange s =
     (let s1 = s\<lparr>loading_mistakes := True\<rparr>
      in loadData_resume getTimeRange (Promise_all getMistakeChats getSubjectStatistics) s1)"

text \<open>
  \<open>totalMistakes\<close> is the reactive \<open>mistakeChats.length\<close>; as a number it is
  \<open>Finite (of_nat (totalMistakes s))\<close>, an array length being an exact integer.
\<close>

definition totalMistakes :: "mistake_state \<Rightarrow> nat" where
  "totalMistakes s = length (mistakeChats s)"

definition Object_values :: "(string \<times> 'a) list \<Rightarrow> 'a list" where
  "Object_values obj = map snd obj"

text \<open>
  The total that the overall-accuracy panel derives:
  \<open>Object.values(subjectStats).reduce((acc, stats) => acc + stats.total, 0)\<close>.
\<close>

definition derived_total :: "mistake_state \<Rightarrow> js_num" where
  "derived_total s =
     foldl (\<lambda>acc stats. js_add acc (total stats)) (Finite 0) (Object_values (subjectStats s))"

text \<open>
  The number shown before the percent sign in the overall-accuracy panel,
  \<open>total > 0 ? Math.round((1 - totalMistakes / total) * 100) : 100\<close> with the derived
  total for \<open>total\<close>; \<open>None\<close> is a display that comes from a division by zero.
\<close>

definition overall_accuracy :: "mistake_state \<Rightarrow> js_num option" where
  "overall_accuracy s =
     (if js_greater (derived_total s) (Finite 0)
      then (case js_divide (Finite (of_nat (totalMistakes s))) (derived_total s) of
              None \<Rightarrow> None
            | Some q \<Rightarrow> Some (Math_round (js_mul (js_sub (Finite 1) q) (Finite 100))))
      else Some (Finite 100))"

section \<open>Example inputs\<close>

definition example_formatter :: "js_value \<Rightarrow> string" where
  "example_formatter v = (if v = JNum 1700000000 then ''3 days ago'' else ''earlier'')"

definition example_chat :: chat where
  "example_chat = [(''id'', JStr ''c1''), (''updated_at'', JNum 1700000000)]"

definition rejecting_search :: "js_object \<Rightarrow> chat list option api_result" where
  "rejecting_search f = Inl (ApiError ''unreachable'')"

definition example_search_state :: search_state where
  "example_search_state =
     initial_search_state\<lparr>searchResults := [example_chat], selectedSubject := ''Math'',
                           selectedKnowledgePoints := [''Algebra'']\<rparr>"

definition example_calls :: "facet_call list" where
  "example_calls =
     [AddKnowledgePoint ''Algebra'', AddKnowledgePoint ''Algebra'', AddTag ''exam'',
      AddKnowledgePoint ''Sets'', RemoveKnowledgePoint ''Algebra'', RemoveTag ''quiz'']"

definition example_selection :: search_state where
  "example_selection = run_calls example_calls initial_search_state"

definition example_modal_calls :: "modal_call list" where
  "example_modal_calls =
     [Modal_add_knowledge_point '' Algebra '', Modal_add_knowledge_point ''Algebra'',
      Modal_add_tag ''exam'', Modal_add_tag ''  '', Modal_remove_tag 5,
      Modal_add_knowledge_point ''Sets'', Modal_remove_knowledge_point 0]"

definition example_modal :: modal_state where
  "example_modal = run_modal_calls example_modal_calls (initial_modal_state ''c1'' None)"

definition mistake_state_of :: "nat \<Rightarrow> js_num list \<Rightarrow> mistake_state" where
  "mistake_state_of n totals =
     \<lparr> mistakeChats = replicate n example_chat,
       subjectStats =
         map (\<lambda>t. (''Math'', \<lparr>mistakes = Finite 0, total = t,
                                 knowledge_points_stats = []\<rparr>)) totals,
       loading_mistakes = False, toasts_mistakes = [] \<rparr>"

definition example_existing :: existing_summary where
  "example_existing =
     \<lparr> existing_subject = Some ''Math'', existing_knowledge_points = Some [''Algebra''],
       existing_summary_text = None, existing_tags = Some [''midterm''] \<rparr>"

definition example_edit :: modal_state where
  "example_edit =
     (initial_modal_state ''c1'' (Some example_existing))
       \<lparr>show_modal := True,
        summaryData := \<lparr> subject = ''Math'', knowledge_points = [''Algebra''],
                         summary = ''Linear equations'', tags = [''exam''] \<rparr>,
        newKnowledgePoint := ''  Sets '', newTag := '' exam''\<rparr>"

definition accepting_update ::
  "string \<Rightarrow> string \<times> string list \<times> string list \<Rightarrow> js_value api_result" where
  "accepting_update cid form = Inr (JObj [(''id'', JStr cid)])"

definition rejecting_update ::
  "string \<Rightarrow> string \<times> string list \<times> string list \<Rightarrow> js_value api_result" where
  "rejecting_update cid form = Inl (ApiError ''unreachable'')"

definition declining_update ::
  "string \<Rightarrow> string \<times> string list \<times> string list \<Rightarrow> js_value api_result" where
  "declining_update cid form = Inr JNull"

definition example_summarize :: "string \<Rightarrow> summary_data option api_result" where
  "example_summarize cid =
     Inr (Some \<lparr> subject = ''Physics'', knowledge_points = [''Optics''],
                 summary = ''About lenses'', tags = [''generated''] \<rparr>)"

section \<open>Search: the filter object and the flag\<close>

lemma filters_eq:
  "filters s =
     (if selectedSubject s = [] then [] else [(''subject'', JStr (selectedSubject s))]) @
     (if selectedKnowledgePoints s = [] then []
      else [(''knowledge_points'', JArr (map JStr (selectedKnowledgePoints s)))]) @
     (if selectedTags s = [] then [] else [(''tags'', JArr (map JStr (selectedTags s)))])"
  by (simp add: filters_def set_field_def)

lemma filters_ignores_progress [simp]:
  "filters (s\<lparr>loading := a, searchPerformed := b\<rparr>) = filters s"
  by (simp add: filters_def)

text \<open>
  Claim C3. The flag \<open>hasFilters\<close> is truthy exactly when the filter object built from the
  same state has at least one field. The flag's value is the subject string itself
  when a subject is selected, and the boolean otherwise.
\<close>

theorem hasFilters_iff_filters_nonempty:
  "(truthy (hasFilters s) \<longleftrightarrow> filters s \<noteq> [])
   \<and> (truthy (hasFilters s) \<longleftrightarrow> dom (map_of (filters s)) \<noteq> {})
   \<and> (selectedSubject s = [] \<longrightarrow> hasFilters s = JBool (filters s \<noteq> []))
   \<and> (selectedSubject s \<noteq> [] \<longrightarrow> hasFilters s = JStr (selectedSubject s))"
  by (simp add: hasFilters_def js_or_def filters_eq)

theorem hasFilters_iff_filters_nonempty_witness:
  "selectedSubject initial_search_state = []
   \<and> hasFilters initial_search_state = JBool False
   \<and> filters initial_search_state = []
   \<and> selectedSubject example_search_state \<noteq> []
   \<and> hasFilters example_search_state = JStr ''Math''
   \<and> filters example_search_state \<noteq> []"
  using hasFilters_iff_filters_nonempty [of initial_search_state]
    hasFilters_iff_filters_nonempty [of example_search_state]
  by (simp add: initial_search_state_def example_search_state_def filters_eq)

text \<open>
  Claim C4. The filter object has the field \<open>subject\<close> exactly when the selected subject
  is a non-empty string, and the fields \<open>knowledge_points\<close> and \<open>tags\<close> exactly when the
  corresponding selection is non-empty; each field that is present holds the facet's
  value, and there is no other field. For the subject \<open>Math\<close>, the knowledge point
  \<open>Algebra\<close> and no tag, the object is \<open>{subject: "Math", knowledge_points: ["Algebra"]}\<close>.
  This object is what \<open>performSearch\<close> hands to the search API.
\<close>

theorem filters_exactly_nonempty_facets:
  "map_of (filters s) ''subject'' =
       (if selectedSubject s = [] then None else Some (JStr (selectedSubject s)))
   \<and> map_of (filters s) ''knowledge_points'' =
       (if selectedKnowledgePoints s = [] then None
        else Some (JArr (map JStr (selectedKnowledgePoints s))))
   \<and> map_of (filters s) ''tags'' =
       (if selectedTags s = [] then None else Some (JArr (map JStr (selectedTags s))))
   \<and> dom (map_of (filters s)) \<subseteq> {''subject'', ''knowledge_points'', ''tags''}
   \<and> distinct (map fst (filters s))
   \<and> fst (performSearch_begin s) = filters s
   \<and> filters (s\<lparr>selectedSubject := ''Math'', selectedKnowledgePoints := [''Algebra''],
                 selectedTags := []\<rparr>)
       = [(''subject'', JStr ''Math''), (''knowledge_points'', JArr [JStr ''Algebra''])]"
  by (simp add: filters_eq performSearch_begin_def Let_def)

theorem filters_exactly_nonempty_facets_witness:
  "map_of (filters example_search_state) ''subject'' = Some (JStr ''Math'')
   \<and> map_of (filters example_search_state) ''knowledge_points'' = Some (JArr [JStr ''Algebra''])
   \<and> map_of (filters example_search_state) ''tags'' = None"
  using filters_exactly_nonempty_facets [of example_search_state]
  by (simp add: initial_search_state_def example_search_state_def)

text \<open>
  Claim C5. After \<open>clearFilters\<close> the selected subject is the empty string, both
  selections are empty, the cached search results are empty, and the filter object
  built from the cleared state has no field.
\<close>

theorem clearFilters_resets_everything:
  "selectedSubject (clearFilters s) = []
   \<and> selectedKnowledgePoints (clearFilters s) = []
   \<and> selectedTags (clearFilters s) = []
   \<and> searchResults (clearFilters s) = []
   \<and> filters (clearFilters s) = []
   \<and> \<not> truthy (hasFilters (clearFilters s))"
  by (simp add: clearFilters_def filters_eq hasFilters_def js_or_def)

theorem clearFilters_resets_everything_witness:
  "filters example_search_state \<noteq> []
   \<and> searchResults example_search_state \<noteq> []
   \<and> searchResults (clearFilters example_search_state) = []
   \<and> filters (clearFilters example_search_state) = []"
  using clearFilters_resets_everything [of example_search_state]
  by (simp add: initial_search_state_def example_search_state_def filters_eq)

section \<open>Search: a failed call keeps the cached results\<close>

lemma performSearch_rejected:
  "searchChatsByMetadata (filters s) = Inl err \<Longrightarrow>
   performSearch searchChatsByMetadata getTimeRange s =
     s\<lparr>loading := False, searchPerformed := True, toasts := toasts s @ [Toast_search_failed]\<rparr>"
  by (simp add: performSearch_def performSearch_begin_def performSearch_resume_def Let_def)

lemma performSearch_funpow_rejected:
  assumes "\<forall>f. isl (searchChatsByMetadata f)"
  shows "searchResults ((performSearch searchChatsByMetadata getTimeRange ^^ n) s)
    = searchResults s"
proof (induction n)
  case 0
  show ?case by simp
next
  case (Suc n)
  let ?t = "(performSearch searchChatsByMetadata getTimeRange ^^ n) s"
  from assms obtain err where "searchChatsByMetadata (filters ?t) = Inl err"
    by (metis isl_def)
  then have "searchResults (performSearch searchChatsByMetadata getTimeRange ?t)
      = searchResults ?t"
    by (simp add: performSearch_rejected)
  with Suc show ?case by simp
qed

text \<open>
  Claim C1. When the search API rejects the call that \<open>performSearch\<close> makes, the cached
  results after \<open>performSearch\<close> are the results before it, whatever they were. With a
  search API that rejects every call, the cached results after any number of
  \<open>performSearch\<close> runs are the initial ones.
\<close>

theorem performSearch_failure_keeps_results:
  "(isl (searchChatsByMetadata (filters s)) \<longrightarrow>
      searchResults (performSearch searchChatsByMetadata getTimeRange s) = searchResults s)
   \<and> ((\<forall>f. isl (searchChatsByMetadata f)) \<longrightarrow>
      searchResults ((performSearch searchChatsByMetadata getTimeRange ^^ n) s)
        = searchResults s)"
proof (intro conjI impI)
  assume "isl (searchChatsByMetadata (filters s))"
  then obtain err where "searchChatsByMetadata (filters s) = Inl err"
    by (auto simp: isl_def)
  then show "searchResults (performSearch searchChatsByMetadata getTimeRange s)
      = searchResults s"
    by (simp add: performSearch_rejected)
next
  assume "\<forall>f. isl (searchChatsByMetadata f)"
  then show "searchResults ((performSearch searchChatsByMetadata getTimeRange ^^ n) s)
      = searchResults s"
    by (rule performSearch_funpow_rejected)
qed

theorem performSearch_failure_keeps_results_witness:
  "isl (rejecting_search (filters example_search_state))
   \<and> (\<forall>f. isl (rejecting_search f))
   \<and> searchResults (performSearch rejecting_search example_formatter example_search_state)
       = [example_chat]
   \<and> searchResults ((performSearch rejecting_search example_formatter ^^ 3) example_search_state)
       = [example_chat]"
  using performSearch_failure_keeps_results
    [of rejecting_search example_search_state example_formatter 3]
  by (simp add: rejecting_search_def example_search_state_def)

section \<open>Result annotation\<close>

lemma map_of_set_field:
  "map_of (set_field name v obj) = (map_of obj)(name \<mapsto> v)"
  by (simp add: set_field_def update_conv')

lemma length_annotate: "length (annotate g rs) = length rs"
  by (simp add: annotate_def)

lemma annotate_store_spec:
  "\<forall>r\<in>set rs. r < length h \<Longrightarrow>
   annotate_store g h rs = (h', out) \<Longrightarrow>
   h' = h @ annotate g (map ((!) h) rs) \<and> out = [length h ..< length h + length rs]"
proof (induction rs arbitrary: h h' out)
  case Nil
  then show ?case by (simp add: annotate_def)
next
  case (Cons r rs)
  let ?h1 = "h @ [annotate_chat g (h ! r)]"
  obtain h2 out2 where rec: "annotate_store g ?h1 rs = (h2, out2)"
    by (cases "annotate_store g ?h1 rs")
  from Cons.prems(1) have valid: "\<forall>r\<in>set rs. r < length ?h1" by auto
  from Cons.IH [OF valid rec]
  have h2: "h2 = ?h1 @ annotate g (map ((!) ?h1) rs)"
    and out2: "out2 = [length ?h1 ..< length ?h1 + length rs]" by auto
  from Cons.prems(1) have same: "map ((!) ?h1) rs = map ((!) h) rs"
    by (auto simp: nth_append)
  from Cons.prems(2) rec have res: "h' = h2" "out = length h # out2" by (auto simp: Let_def)
  have "h' = h @ annotate g (map ((!) h) (r # rs))"
    using res(1) h2 same by (simp add: annotate_def)
  moreover have "[length h ..< length h + length (r # rs)]
      = length h # [length ?h1 ..< length ?h1 + length rs]"
    by (subst upt_rec) simp
  then have "out = [length h ..< length h + length (r # rs)]"
    using res(2) out2 by (simp only:)
  ultimately show ?case by (rule conjI)
qed

lemma read_appended: "map ((!) (h @ xs)) [length h ..< length h + length xs] = xs"
  by (rule nth_equalityI) (simp_all add: nth_append)

lemma annotate_store_sound:
  assumes "\<forall>r\<in>set refs. r < length h"
  shows "case annotate_store g h refs of (h', out) \<Rightarrow>
           take (length h) h' = h
         \<and> length out = length refs
         \<and> map ((!) h') out = annotate g (map ((!) h) refs)
         \<and> (\<forall>r\<in>set out. length h \<le> r)"
proof -
  obtain h' out where run: "annotate_store g h refs = (h', out)"
    by (cases "annotate_store g h refs")
  from annotate_store_spec [OF assms run]
  have h': "h' = h @ annotate g (map ((!) h) refs)"
    and out: "out = [length h ..< length h + length refs]" by auto
  have "map ((!) h') out = annotate g (map ((!) h) refs)"
    using read_appended [of h "annotate g (map ((!) h) refs)"]
    by (simp add: h' out length_annotate)
  then show ?thesis
    by (simp add: run h' out)
qed

lemma annotate_nth:
  "i < length rs \<Longrightarrow>
   annotate g rs ! i = set_field ''time_range'' (JStr (g (get_field (rs ! i) ''updated_at''))) (rs ! i)"
  by (simp add: annotate_def annotate_chat_def)

text \<open>
  Claim C6. The annotation step returns as many records as it receives, in the same
  order: record \<open>i\<close> of the output is record \<open>i\<close> of the input with the field
  \<open>time_range\<close> set to the formatter's text for that record's \<open>updated_at\<close>, and every
  other field as it was. Over the store, the objects that existed before the step are
  unchanged and the output array holds references to new objects only. The record
  \<open>{id: "c1", updated_at: 1700000000}\<close>, with a formatter that maps this time stamp to
  \<open>3 days ago\<close>, yields the same record with \<open>time_range: "3 days ago"\<close> added. The search
  view stores the annotated search results, the mistake book the annotated mistakes.
\<close>

theorem annotate_extends_each_record:
  "length (annotate g rs) = length rs
   \<and> (\<forall>i<length rs.
        annotate g rs ! i
          = set_field ''time_range'' (JStr (g (get_field (rs ! i) ''updated_at''))) (rs ! i)
        \<and> map_of (annotate g rs ! i) ''time_range''
          = Some (JStr (g (get_field (rs ! i) ''updated_at'')))
        \<and> (\<forall>name. name \<noteq> ''time_range'' \<longrightarrow>
              map_of (annotate g rs ! i) name = map_of (rs ! i) name))
   \<and> ((\<forall>r\<in>set refs. r < length h) \<longrightarrow>
        (case annotate_store g h refs of (h', out) \<Rightarrow>
           take (length h) h' = h
         \<and> length out = length refs
         \<and> map ((!) h') out = annotate g (map ((!) h) refs)
         \<and> (\<forall>r\<in>set out. length h \<le> r)))
   \<and> (g (JNum 1700000000) = ''3 days ago'' \<longrightarrow>
        annotate g [[(''id'', JStr ''c1''), (''updated_at'', JNum 1700000000)]]
          = [[(''id'', JStr ''c1''), (''updated_at'', JNum 1700000000),
              (''time_range'', JStr ''3 days ago'')]])
   \<and> searchResults (performSearch (\<lambda>f. Inr (Some rs)) g s) = annotate g rs
   \<and> mistakeChats (loadData (Inr (Some rs)) (Inr stats) g t) = annotate g rs"
proof (intro conjI allI impI)
  show "length (annotate g rs) = length rs" by (rule length_annotate)
next
  show "searchResults (performSearch (\<lambda>f. Inr (Some rs)) g s) = annotate g rs"
    by (simp add: performSearch_def performSearch_begin_def performSearch_resume_def Let_def)
next
  show "mistakeChats (loadData (Inr (Some rs)) (Inr stats) g t) = annotate g rs"
    by (simp add: loadData_def loadData_resume_def Promise_all_def Let_def
        split: option.split)
next
  fix i assume "i < length rs"
  then show "annotate g rs ! i
      = set_field ''time_range'' (JStr (g (get_field (rs ! i) ''updated_at''))) (rs ! i)"
    by (rule annotate_nth)
next
  fix i assume "i < length rs"
  then show "map_of (annotate g rs ! i) ''time_range''
      = Some (JStr (g (get_field (rs ! i) ''updated_at'')))"
    by (simp add: annotate_nth map_of_set_field)
next
  fix i name assume "i < length rs" "name \<noteq> ''time_range''"
  then show "map_of (annotate g rs ! i) name = map_of (rs ! i) name"
    by (simp add: annotate_nth map_of_set_field)
next
  assume "\<forall>r\<in>set refs. r < length h"
  then show "case annotate_store g h refs of (h', out) \<Rightarrow>
           take (length h) h' = h
         \<and> length out = length refs
         \<and> map ((!) h') out = annotate g (map ((!) h) refs)
         \<and> (\<forall>r\<in>set out. length h \<le> r)"
    by (rule annotate_store_sound)
next
  assume "g (JNum 1700000000) = ''3 days ago''"
  then show "annotate g [[(''id'', JStr ''c1''), (''updated_at'', JNum 1700000000)]]
          = [[(''id'', JStr ''c1''), (''updated_at'', JNum 1700000000),
              (''time_range'', JStr ''3 days ago'')]]"
    by (simp add: annotate_def annotate_chat_def set_field_def get_field_def)
qed

theorem annotate_extends_each_record_witness:
  "(0::nat) < length [example_chat]
   \<and> list_all (\<lambda>r. r < length [example_chat]) [0]
   \<and> example_formatter (JNum 1700000000) = ''3 days ago''
   \<and> annotate example_formatter [example_chat]
       = [[(''id'', JStr ''c1''), (''updated_at'', JNum 1700000000),
           (''time_range'', JStr ''3 days ago'')]]
   \<and> annotate_store example_formatter [example_chat] [0]
       = ([example_chat, example_chat @ [(''time_range'', JStr ''3 days ago'')]], [1])"
proof -
  note inst = annotate_extends_each_record [of example_formatter "[example_chat]" "[0]" "[example_chat]"]
  have pos: "(0::nat) < length [example_chat]"
    by simp
  have valid: "list_all (\<lambda>r. r < length [example_chat]) [0]"
    by simp
  have fmt: "example_formatter (JNum 1700000000) = ''3 days ago''"
    by (simp add: example_formatter_def)
  from inst have "example_formatter (JNum 1700000000) = ''3 days ago'' \<longrightarrow>
      annotate example_formatter [[(''id'', JStr ''c1''), (''updated_at'', JNum 1700000000)]]
      = [[(''id'', JStr ''c1''), (''updated_at'', JNum 1700000000),
          (''time_range'', JStr ''3 days ago'')]]"
    by (rule conjunct1 [OF conjunct2 [OF conjunct2 [OF conjunct2]]])
  with fmt have example:
    "annotate example_formatter [[(''id'', JStr ''c1''), (''updated_at'', JNum 1700000000)]]
      = [[(''id'', JStr ''c1''), (''updated_at'', JNum 1700000000),
          (''time_range'', JStr ''3 days ago'')]]"
    by (rule rev_mp)
  have stored: "annotate_store example_formatter [example_chat] [0]
       = ([example_chat, example_chat @ [(''time_range'', JStr ''3 days ago'')]], [1])"
    by (simp add: example_formatter_def example_chat_def annotate_chat_def set_field_def
        get_field_def)
  from pos valid fmt example stored show ?thesis
    by (simp only: example_chat_def simp_thms)
qed

section \<open>The multi-valued facets as sets\<close>

lemma run_calls_snoc: "run_calls (cs @ [c]) s = apply_call c (run_calls cs s)"
  by (simp add: run_calls_def)

lemma added_and_kept_snoc:
  "added_and_kept a r (cs @ [c]) \<longleftrightarrow> c = a \<or> (c \<noteq> r \<and> added_and_kept a r cs)"
  by (induction cs) auto

lemma selectedKnowledgePoints_after:
  "selectedKnowledgePoints (addKnowledgePoint v s) =
     (if v \<in> set (selectedKnowledgePoints s) then selectedKnowledgePoints s
      else selectedKnowledgePoints s @ [v])"
  "selectedKnowledgePoints (removeKnowledgePoint v s) =
     filter (\<lambda>item. item \<noteq> v) (selectedKnowledgePoints s)"
  "selectedKnowledgePoints (addTag v s) = selectedKnowledgePoints s"
  "selectedKnowledgePoints (removeTag v s) = selectedKnowledgePoints s"
  by (simp_all add: addKnowledgePoint_def removeKnowledgePoint_def addTag_def removeTag_def)

lemma selectedTags_after:
  "selectedTags (addTag v s) =
     (if v \<in> set (selectedTags s) then selectedTags s else selectedTags s @ [v])"
  "selectedTags (removeTag v s) = filter (\<lambda>item. item \<noteq> v) (selectedTags s)"
  "selectedTags (addKnowledgePoint v s) = selectedTags s"
  "selectedTags (removeKnowledgePoint v s) = selectedTags s"
  by (simp_all add: addKnowledgePoint_def removeKnowledgePoint_def addTag_def removeTag_def)

lemma knowledge_points_after_calls:
  "distinct (selectedKnowledgePoints (run_calls calls initial_search_state))
   \<and> set (selectedKnowledgePoints (run_calls calls initial_search_state))
       = {v. added_and_kept (AddKnowledgePoint v) (RemoveKnowledgePoint v) calls}"
proof (induction calls rule: rev_induct)
  case Nil
  show ?case by (simp add: run_calls_def initial_search_state_def)
next
  case (snoc c cs)
  then show ?case
    by (cases c)
      (auto simp: run_calls_snoc selectedKnowledgePoints_after added_and_kept_snoc)
qed

lemma tags_after_calls:
  "distinct (selectedTags (run_calls calls initial_search_state))
   \<and> set (selectedTags (run_calls calls initial_search_state))
       = {v. added_and_kept (AddTag v) (RemoveTag v) calls}"
proof (induction calls rule: rev_induct)
  case Nil
  show ?case by (simp add: run_calls_def initial_search_state_def)
next
  case (snoc c cs)
  then show ?case
    by (cases c) (auto simp: run_calls_snoc selectedTags_after added_and_kept_snoc)
qed

lemma filter_indexed_snoc:
  "filter_indexed p (xs @ [x]) = filter_indexed p xs @ (if p x (length xs) then [x] else [])"
  by (simp add: filter_indexed_def)

lemma set_filter_indexed: "set (filter_indexed p xs) \<subseteq> set xs"
  by (induction xs rule: rev_induct) (auto simp: filter_indexed_snoc filter_indexed_def)

lemma distinct_filter_indexed: "distinct xs \<Longrightarrow> distinct (filter_indexed p xs)"
proof (induction xs rule: rev_induct)
  case Nil
  show ?case by (simp add: filter_indexed_def)
next
  case (snoc x xs)
  with set_filter_indexed [of p xs] show ?case
    by (auto simp: filter_indexed_snoc)
qed

lemma filter_indexed_out_of_range:
  "length xs \<le> index \<Longrightarrow> filter_indexed (\<lambda>x i. i \<noteq> index) xs = xs"
  by (induction xs rule: rev_induct) (simp_all add: filter_indexed_snoc filter_indexed_def)

lemma set_filter_indexed_remove:
  "distinct xs \<Longrightarrow> index < length xs \<Longrightarrow>
   set (filter_indexed (\<lambda>x i. i \<noteq> index) xs) = set xs - {xs ! index}"
proof (induction xs rule: rev_induct)
  case Nil
  then show ?case by simp
next
  case (snoc x xs)
  show ?case
  proof (cases "index = length xs")
    case True
    with snoc.prems show ?thesis
      by (simp add: filter_indexed_snoc filter_indexed_out_of_range)
  next
    case False
    with snoc.prems have less: "index < length xs" by simp
    with snoc have "set (filter_indexed (\<lambda>x i. i \<noteq> index) xs) = set xs - {xs ! index}"
      by simp
    moreover from snoc.prems less have "x \<noteq> xs ! index" by auto
    ultimately show ?thesis
      using False less by (auto simp: filter_indexed_snoc nth_append)
  qed
qed


lemma modal_knowledge_points_after:
  "knowledge_points (summaryData (addKnowledgePoint_modal s)) =
     (if trim (newKnowledgePoint s) \<noteq> []
         \<and> trim (newKnowledgePoint s) \<notin> set (knowledge_points (summaryData s))
      then knowledge_points (summaryData s) @ [trim (newKnowledgePoint s)]
      else knowledge_points (summaryData s))"
  "knowledge_points (summaryData (removeKnowledgePoint_modal i s)) =
     filter_indexed (\<lambda>x j. j \<noteq> i) (knowledge_points (summaryData s))"
  "knowledge_points (summaryData (addTag_modal s)) = knowledge_points (summaryData s)"
  "knowledge_points (summaryData (removeTag_modal i s)) = knowledge_points (summaryData s)"
  by (simp_all add: addKnowledgePoint_modal_def removeKnowledgePoint_modal_def
      addTag_modal_def removeTag_modal_def)

lemma modal_tags_after:
  "tags (summaryData (addTag_modal s)) =
     (if trim (newTag s) \<noteq> [] \<and> trim (newTag s) \<notin> set (tags (summaryData s))
      then tags (summaryData s) @ [trim (newTag s)]
      else tags (summaryData s))"
  "tags (summaryData (removeTag_modal i s)) =
     filter_indexed (\<lambda>x j. j \<noteq> i) (tags (summaryData s))"
  "tags (summaryData (addKnowledgePoint_modal s)) = tags (summaryData s)"
  "tags (summaryData (removeKnowledgePoint_modal i s)) = tags (summaryData s)"
  by (simp_all add: addKnowledgePoint_modal_def removeKnowledgePoint_modal_def
      addTag_modal_def removeTag_modal_def)

lemma modal_step_distinct:
  "distinct (knowledge_points (summaryData s)) \<and> distinct (tags (summaryData s)) \<Longrightarrow>
   distinct (knowledge_points (summaryData (apply_modal_call c s)))
   \<and> distinct (tags (summaryData (apply_modal_call c s)))"
  by (cases c)
    (simp_all add: modal_knowledge_points_after modal_tags_after distinct_filter_indexed)

lemma modal_calls_distinct:
  "distinct (knowledge_points (summaryData s)) \<and> distinct (tags (summaryData s)) \<Longrightarrow>
   distinct (knowledge_points (summaryData (run_modal_calls calls s)))
   \<and> distinct (tags (summaryData (run_modal_calls calls s)))"
proof (induction calls arbitrary: s)
  case Nil
  then show ?case by (simp add: run_modal_calls_def)
next
  case (Cons c cs)
  from Cons.IH [OF modal_step_distinct [OF Cons.prems, of c]]
  show ?case by (simp add: run_modal_calls_def)
qed

lemma modal_calls_distinct_initial:
  "distinct (knowledge_points (summaryData (run_modal_calls calls (initial_modal_state cid e))))
   \<and> distinct (tags (summaryData (run_modal_calls calls (initial_modal_state cid e))))"
  by (rule modal_calls_distinct) (simp add: initial_modal_state_def)

lemma filter_absent: "v \<notin> set xs \<Longrightarrow> filter (\<lambda>item. item \<noteq> v) xs = xs"
  by (induction xs) auto

text \<open>
  Claim C2. Starting from the empty selections, after any sequence of add and remove
  calls the selected knowledge points and the selected tags hold no value twice, and
  each holds exactly the values that were added and not removed afterwards. Adding a
  value that is present changes no selection (it only closes the dropdown), and
  removing a value that is absent changes nothing. The modal's lists, which are filled
  from a trimmed input field and emptied by position, have no duplicates either:
  adding a text whose trimmed form is present and removing at a position beyond the
  end change nothing, an add inserts the trimmed text when it is not empty, and a
  remove at a position takes out the value at that position.
\<close>

theorem facet_lists_behave_as_sets:
  "distinct (selectedKnowledgePoints (run_calls calls initial_search_state))
   \<and> distinct (selectedTags (run_calls calls initial_search_state))
   \<and> set (selectedKnowledgePoints (run_calls calls initial_search_state))
       = {v. added_and_kept (AddKnowledgePoint v) (RemoveKnowledgePoint v) calls}
   \<and> set (selectedTags (run_calls calls initial_search_state))
       = {v. added_and_kept (AddTag v) (RemoveTag v) calls}
   \<and> (kp \<in> set (selectedKnowledgePoints s) \<longrightarrow>
        addKnowledgePoint kp s = s\<lparr>showKnowledgePointsDropdown := False\<rparr>)
   \<and> (tag \<in> set (selectedTags s) \<longrightarrow> addTag tag s = s\<lparr>showTagsDropdown := False\<rparr>)
   \<and> (x \<notin> set (selectedKnowledgePoints s) \<longrightarrow> removeKnowledgePoint x s = s)
   \<and> (y \<notin> set (selectedTags s) \<longrightarrow> removeTag y s = s)
   \<and> distinct (knowledge_points (summaryData
        (run_modal_calls mcalls (initial_modal_state cid e))))
   \<and> distinct (tags (summaryData (run_modal_calls mcalls (initial_modal_state cid e))))
   \<and> (trim kp \<in> set (knowledge_points (summaryData m)) \<longrightarrow>
        addKnowledgePoint_modal (m\<lparr>newKnowledgePoint := kp\<rparr>) = m\<lparr>newKnowledgePoint := kp\<rparr>)
   \<and> (trim tag \<in> set (tags (summaryData m)) \<longrightarrow>
        addTag_modal (m\<lparr>newTag := tag\<rparr>) = m\<lparr>newTag := tag\<rparr>)
   \<and> (length (knowledge_points (summaryData m)) \<le> i \<longrightarrow>
        removeKnowledgePoint_modal i m = m)
   \<and> (length (tags (summaryData m)) \<le> i \<longrightarrow> removeTag_modal i m = m)
   \<and> set (knowledge_points (summaryData (addKnowledgePoint_modal (m\<lparr>newKnowledgePoint := x\<rparr>))))
       = (if trim x = [] then set (knowledge_points (summaryData m))
          else insert (trim x) (set (knowledge_points (summaryData m))))
   \<and> set (tags (summaryData (addTag_modal (m\<lparr>newTag := y\<rparr>))))
       = (if trim y = [] then set (tags (summaryData m))
          else insert (trim y) (set (tags (summaryData m))))
   \<and> (distinct (knowledge_points (summaryData m)) \<and> j < length (knowledge_points (summaryData m))
        \<longrightarrow> set (knowledge_points (summaryData (removeKnowledgePoint_modal j m)))
            = set (knowledge_points (summaryData m)) - {knowledge_points (summaryData m) ! j})
   \<and> (distinct (tags (summaryData m)) \<and> j < length (tags (summaryData m))
        \<longrightarrow> set (tags (summaryData (removeTag_modal j m)))
            = set (tags (summaryData m)) - {tags (summaryData m) ! j})"
proof -
  have "x \<notin> set (selectedKnowledgePoints s) \<longrightarrow> removeKnowledgePoint x s = s"
    by (simp add: removeKnowledgePoint_def filter_absent)
  moreover have "y \<notin> set (selectedTags s) \<longrightarrow> removeTag y s = s"
    by (simp add: removeTag_def filter_absent)
  moreover have "kp \<in> set (selectedKnowledgePoints s) \<longrightarrow>
      addKnowledgePoint kp s = s\<lparr>showKnowledgePointsDropdown := False\<rparr>"
    by (simp add: addKnowledgePoint_def)
  moreover have "tag \<in> set (selectedTags s) \<longrightarrow> addTag tag s = s\<lparr>showTagsDropdown := False\<rparr>"
    by (simp add: addTag_def)
  moreover have "trim kp \<in> set (knowledge_points (summaryData m)) \<longrightarrow>
      addKnowledgePoint_modal (m\<lparr>newKnowledgePoint := kp\<rparr>) = m\<lparr>newKnowledgePoint := kp\<rparr>"
    by (simp add: addKnowledgePoint_modal_def)
  moreover have "trim tag \<in> set (tags (summaryData m)) \<longrightarrow>
      addTag_modal (m\<lparr>newTag := tag\<rparr>) = m\<lparr>newTag := tag\<rparr>"
    by (simp add: addTag_modal_def)
  moreover have "length (knowledge_points (summaryData m)) \<le> i \<longrightarrow>
      removeKnowledgePoint_modal i m = m"
    by (simp add: removeKnowledgePoint_modal_def filter_indexed_out_of_range)
  moreover have "length (tags (summaryData m)) \<le> i \<longrightarrow> removeTag_modal i m = m"
    by (simp add: removeTag_modal_def filter_indexed_out_of_range)
  moreover have
    "set (knowledge_points (summaryData (addKnowledgePoint_modal (m\<lparr>newKnowledgePoint := x\<rparr>))))
       = (if trim x = [] then set (knowledge_points (summaryData m))
          else insert (trim x) (set (knowledge_points (summaryData m))))"
    by (auto simp: modal_knowledge_points_after)
  moreover have "set (tags (summaryData (addTag_modal (m\<lparr>newTag := y\<rparr>))))
       = (if trim y = [] then set (tags (summaryData m))
          else insert (trim y) (set (tags (summaryData m))))"
    by (auto simp: modal_tags_after)
  moreover have
    "distinct (knowledge_points (summaryData m)) \<and> j < length (knowledge_points (summaryData m))
        \<longrightarrow> set (knowledge_points (summaryData (removeKnowledgePoint_modal j m)))
            = set (knowledge_points (summaryData m)) - {knowledge_points (summaryData m) ! j}"
    by (simp add: modal_knowledge_points_after set_filter_indexed_remove)
  moreover have "distinct (tags (summaryData m)) \<and> j < length (tags (summaryData m))
        \<longrightarrow> set (tags (summaryData (removeTag_modal j m)))
            = set (tags (summaryData m)) - {tags (summaryData m) ! j}"
    by (simp add: modal_tags_after set_filter_indexed_remove)
  ultimately show ?thesis
    using knowledge_points_after_calls [of calls] tags_after_calls [of calls]
      modal_calls_distinct_initial [of mcalls cid e]
    by (intro conjI) (elim conjE, assumption)+
qed

theorem facet_lists_behave_as_sets_witness:
  "selectedKnowledgePoints example_selection = [''Sets'']
   \<and> selectedTags example_selection = [''exam'']
   \<and> {v. added_and_kept (AddKnowledgePoint v) (RemoveKnowledgePoint v) example_calls}
       = {''Sets''}
   \<and> {v. added_and_kept (AddTag v) (RemoveTag v) example_calls} = {''exam''}
   \<and> addKnowledgePoint ''Sets'' example_selection
       = example_selection\<lparr>showKnowledgePointsDropdown := False\<rparr>
   \<and> addTag ''exam'' example_selection = example_selection\<lparr>showTagsDropdown := False\<rparr>
   \<and> removeKnowledgePoint ''Algebra'' example_selection = example_selection
   \<and> removeTag ''quiz'' example_selection = example_selection
   \<and> knowledge_points (summaryData example_modal) = [''Sets'']
   \<and> tags (summaryData example_modal) = [''exam'']
   \<and> trim '' Sets '' = ''Sets''
   \<and> addKnowledgePoint_modal (example_modal\<lparr>newKnowledgePoint := '' Sets ''\<rparr>)
       = example_modal\<lparr>newKnowledgePoint := '' Sets ''\<rparr>
   \<and> trim ''exam '' = ''exam''
   \<and> addTag_modal (example_modal\<lparr>newTag := ''exam ''\<rparr>) = example_modal\<lparr>newTag := ''exam ''\<rparr>
   \<and> removeKnowledgePoint_modal 1 example_modal = example_modal
   \<and> removeTag_modal 1 example_modal = example_modal
   \<and> set (knowledge_points (summaryData (removeKnowledgePoint_modal 0 example_modal))) = {}
   \<and> set (tags (summaryData (removeTag_modal 0 example_modal))) = {}"
proof -
  have kps: "selectedKnowledgePoints example_selection = [''Sets'']"
    and tgs: "selectedTags example_selection = [''exam'']"
    by (simp_all add: example_selection_def run_calls_def example_calls_def
        initial_search_state_def addKnowledgePoint_def removeKnowledgePoint_def addTag_def
        removeTag_def)
  have mk: "knowledge_points (summaryData example_modal) = [''Sets'']"
    and mt: "tags (summaryData example_modal) = [''exam'']"
    by (simp_all add: example_modal_def run_modal_calls_def example_modal_calls_def
        initial_modal_state_def addKnowledgePoint_modal_def removeKnowledgePoint_modal_def
        addTag_modal_def removeTag_modal_def trim_def is_whitespace_def filter_indexed_def)
  have trimmed: "trim '' Sets '' = ''Sets''" "trim ''exam '' = ''exam''"
    by (simp_all add: trim_def is_whitespace_def)
  note search = facet_lists_behave_as_sets
    [where calls = example_calls and s = example_selection and kp = "''Sets''"
       and tag = "''exam''" and x = "''Algebra''" and y = "''quiz''"
       and m = example_modal and i = 1 and j = 0
       and mcalls = example_modal_calls and cid = "''c1''" and e = None,
     folded example_selection_def]
  note modal = facet_lists_behave_as_sets
    [where calls = example_calls and s = example_selection and kp = "'' Sets ''"
       and tag = "''exam ''" and x = "''Algebra''" and y = "''quiz''"
       and m = example_modal and i = 1 and j = 0
       and mcalls = example_modal_calls and cid = "''c1''" and e = None]
  from search have "set (selectedKnowledgePoints example_selection)
      = {v. added_and_kept (AddKnowledgePoint v) (RemoveKnowledgePoint v) example_calls}"
    by (elim conjE)
  then have c1: "{v. added_and_kept (AddKnowledgePoint v) (RemoveKnowledgePoint v) example_calls}
      = {''Sets''}"
    by (simp add: kps)
  from search have "set (selectedTags example_selection)
      = {v. added_and_kept (AddTag v) (RemoveTag v) example_calls}"
    by (elim conjE)
  then have c2: "{v. added_and_kept (AddTag v) (RemoveTag v) example_calls} = {''exam''}"
    by (simp add: tgs)
  from search have "''Sets'' \<in> set (selectedKnowledgePoints example_selection) \<longrightarrow>
      addKnowledgePoint ''Sets'' example_selection
        = example_selection\<lparr>showKnowledgePointsDropdown := False\<rparr>"
    by (elim conjE)
  then have c3: "addKnowledgePoint ''Sets'' example_selection
      = example_selection\<lparr>showKnowledgePointsDropdown := False\<rparr>"
    by (simp add: kps)
  from search have "''exam'' \<in> set (selectedTags example_selection) \<longrightarrow>
      addTag ''exam'' example_selection = example_selection\<lparr>showTagsDropdown := False\<rparr>"
    by (elim conjE)
  then have c4: "addTag ''exam'' example_selection = example_selection\<lparr>showTagsDropdown := False\<rparr>"
    by (simp add: tgs)
  from search have "''Algebra'' \<notin> set (selectedKnowledgePoints example_selection) \<longrightarrow>
      removeKnowledgePoint ''Algebra'' example_selection = example_selection"
    by (elim conjE)
  then have c5: "removeKnowledgePoint ''Algebra'' example_selection = example_selection"
    by (simp add: kps)
  from search have "''quiz'' \<notin> set (selectedTags example_selection) \<longrightarrow>
      removeTag ''quiz'' example_selection = example_selection"
    by (elim conjE)
  then have c6: "removeTag ''quiz'' example_selection = example_selection"
    by (simp add: tgs)
  from modal have "trim '' Sets '' \<in> set (knowledge_points (summaryData example_modal)) \<longrightarrow>
      addKnowledgePoint_modal (example_modal\<lparr>newKnowledgePoint := '' Sets ''\<rparr>)
        = example_modal\<lparr>newKnowledgePoint := '' Sets ''\<rparr>"
    by (elim conjE)
  then have c7: "addKnowledgePoint_modal (example_modal\<lparr>newKnowledgePoint := '' Sets ''\<rparr>)
      = example_modal\<lparr>newKnowledgePoint := '' Sets ''\<rparr>"
    by (simp add: mk trimmed)
  from modal have "trim ''exam '' \<in> set (tags (summaryData example_modal)) \<longrightarrow>
      addTag_modal (example_modal\<lparr>newTag := ''exam ''\<rparr>) = example_modal\<lparr>newTag := ''exam ''\<rparr>"
    by (elim conjE)
  then have c8: "addTag_modal (example_modal\<lparr>newTag := ''exam ''\<rparr>)
      = example_modal\<lparr>newTag := ''exam ''\<rparr>"
    by (simp add: mt trimmed)
  from search have "length (knowledge_points (summaryData example_modal)) \<le> 1 \<longrightarrow>
      removeKnowledgePoint_modal 1 example_modal = example_modal"
    by (elim conjE)
  then have c9: "removeKnowledgePoint_modal 1 example_modal = example_modal"
    by (simp add: mk)
  from search have "length (tags (summaryData example_modal)) \<le> 1 \<longrightarrow>
      removeTag_modal 1 example_modal = example_modal"
    by (elim conjE)
  then have c10: "removeTag_modal 1 example_modal = example_modal"
    by (simp add: mt)
  from search have "distinct (knowledge_points (summaryData example_modal))
        \<and> 0 < length (knowledge_points (summaryData example_modal))
      \<longrightarrow> set (knowledge_points (summaryData (removeKnowledgePoint_modal 0 example_modal)))
          = set (knowledge_points (summaryData example_modal))
            - {knowledge_points (summaryData example_modal) ! 0}"
    by (elim conjE)
  then have c11:
    "set (knowledge_points (summaryData (removeKnowledgePoint_modal 0 example_modal))) = {}"
    by (simp add: mk)
  from search have "distinct (tags (summaryData example_modal))
        \<and> 0 < length (tags (summaryData example_modal))
      \<longrightarrow> set (tags (summaryData (removeTag_modal 0 example_modal)))
          = set (tags (summaryData example_modal)) - {tags (summaryData example_modal) ! 0}"
    by (elim conjE)
  then have c12: "set (tags (summaryData (removeTag_modal 0 example_modal))) = {}"
    by (simp add: mt)
  from kps tgs c1 c2 c3 c4 c5 c6 mk mt trimmed(1) c7 trimmed(2) c8 c9 c10 c11 c12
  show ?thesis by (intro conjI)
qed

section \<open>The modal: saving and regenerating\<close>

text \<open>
  Claim C7. When the modal has a chat identifier and the update API resolves the call
  with a truthy value, \<open>saveSummary\<close> dispatches one \<open>updated\<close> event whose payload is
  the edited \<open>summaryData\<close>. When the API rejects the call, only the failure toast and
  the loading flag change; when it resolves with a falsy value, or when there is no
  chat identifier and no call is made, nothing is dispatched. In every case
  \<open>summaryData\<close> after \<open>saveSummary\<close> is \<open>summaryData\<close> before it.
\<close>

theorem saveSummary_notifies_or_keeps:
  "(chatId s \<noteq> []
      \<and> updateChatSummaryById (chatId s)
            (subject (summaryData s), knowledge_points (summaryData s), tags (summaryData s))
          = Inr result
      \<and> truthy result
     \<longrightarrow> dispatched (saveSummary updateChatSummaryById s)
           = dispatched s @ [(''updated'', summaryData s)]
         \<and> toasts_modal (saveSummary updateChatSummaryById s)
           = toasts_modal s @ [Toast_summary_saved])
   \<and> (chatId s \<noteq> []
      \<and> updateChatSummaryById (chatId s)
            (subject (summaryData s), knowledge_points (summaryData s), tags (summaryData s))
          = Inl err
     \<longrightarrow> saveSummary updateChatSummaryById s
           = s\<lparr>toasts_modal := toasts_modal s @ [Toast_save_failed], loading_modal := False\<rparr>)
   \<and> (chatId s \<noteq> []
      \<and> updateChatSummaryById (chatId s)
            (subject (summaryData s), knowledge_points (summaryData s), tags (summaryData s))
          = Inr result
      \<and> \<not> truthy result
     \<longrightarrow> saveSummary updateChatSummaryById s = s\<lparr>loading_modal := False\<rparr>)
   \<and> (chatId s = [] \<longrightarrow> saveSummary updateChatSummaryById s = s)
   \<and> summaryData (saveSummary updateChatSummaryById s) = summaryData s"
  by (simp add: saveSummary_def saveSummary_resume_def Let_def split: sum.splits)

theorem saveSummary_notifies_or_keeps_witness:
  "chatId example_edit \<noteq> []
   \<and> accepting_update (chatId example_edit) (''Math'', [''Algebra''], [''exam''])
       = Inr (JObj [(''id'', JStr ''c1'')])
   \<and> truthy (JObj [(''id'', JStr ''c1'')])
   \<and> dispatched (saveSummary accepting_update example_edit)
       = [(''updated'', summaryData example_edit)]
   \<and> rejecting_update (chatId example_edit) (''Math'', [''Algebra''], [''exam''])
       = Inl (ApiError ''unreachable'')
   \<and> summaryData (saveSummary rejecting_update example_edit) = summaryData example_edit
   \<and> dispatched (saveSummary rejecting_update example_edit) = []
   \<and> declining_update (chatId example_edit) (''Math'', [''Algebra''], [''exam'']) = Inr JNull
   \<and> \<not> truthy JNull
   \<and> dispatched (saveSummary declining_update example_edit) = []
   \<and> chatId (example_edit\<lparr>chatId := []\<rparr>) = []
   \<and> saveSummary accepting_update (example_edit\<lparr>chatId := []\<rparr>) = example_edit\<lparr>chatId := []\<rparr>"
  using saveSummary_notifies_or_keeps
      [of example_edit accepting_update "JObj [(''id'', JStr ''c1'')]" "ApiError ''unreachable''"]
    saveSummary_notifies_or_keeps
      [of example_edit rejecting_update "JObj [(''id'', JStr ''c1'')]" "ApiError ''unreachable''"]
    saveSummary_notifies_or_keeps
      [of example_edit declining_update JNull "ApiError ''unreachable''"]
    saveSummary_notifies_or_keeps
      [of "example_edit\<lparr>chatId := []\<rparr>" accepting_update JNull "ApiError ''unreachable''"]
  by (simp add: example_edit_def initial_modal_state_def accepting_update_def
      rejecting_update_def declining_update_def)

text \<open>
  Claim C9. When the modal has a chat identifier and the summarization API resolves
  with a summary, \<open>generateSummary\<close> takes the subject, the knowledge points and the
  summary text from the API's result and the tags from the \<open>existingSummary\<close> property:
  the empty list when there is no existing summary (or it has no tags), the existing
  tags otherwise. The tags of the API's result have no influence. Without a chat
  identifier, on a rejected call and on a falsy result \<open>summaryData\<close> stays as it is.
\<close>

theorem generateSummary_keeps_existing_tags:
  "(chatId s \<noteq> [] \<and> summarizeChatById (chatId s) = Inr (Some result)
     \<longrightarrow> subject (summaryData (generateSummary summarizeChatById s)) = subject result
         \<and> knowledge_points (summaryData (generateSummary summarizeChatById s))
           = knowledge_points result
         \<and> summary (summaryData (generateSummary summarizeChatById s)) = summary result
         \<and> tags (summaryData (generateSummary summarizeChatById s))
           = (case existingSummary s of
                None \<Rightarrow> []
              | Some e \<Rightarrow> (case existing_tags e of None \<Rightarrow> [] | Some t \<Rightarrow> t))
         \<and> (existingSummary s = None
              \<longrightarrow> tags (summaryData (generateSummary summarizeChatById s)) = [])
         \<and> (existingSummary s = Some e \<and> existing_tags e = Some t
              \<longrightarrow> tags (summaryData (generateSummary summarizeChatById s)) = t))
   \<and> summaryData (generateSummary_resume (Inr (Some (result\<lparr>tags := ts\<rparr>))) s)
       = summaryData (generateSummary_resume (Inr (Some result)) s)
   \<and> (chatId s = [] \<or> isl (summarizeChatById (chatId s))
        \<or> summarizeChatById (chatId s) = Inr None
     \<longrightarrow> summaryData (generateSummary summarizeChatById s) = summaryData s)"
  by (auto simp: generateSummary_def generateSummary_resume_def Let_def isl_def)

theorem generateSummary_keeps_existing_tags_witness:
  "chatId example_edit \<noteq> []
   \<and> existingSummary example_edit = Some example_existing
   \<and> existing_tags example_existing = Some [''midterm'']
   \<and> tags (summaryData example_edit) = [''exam'']
   \<and> summaryData (generateSummary example_summarize example_edit)
       = \<lparr> subject = ''Physics'', knowledge_points = [''Optics''],
           summary = ''About lenses'', tags = [''midterm''] \<rparr>
   \<and> chatId (example_edit\<lparr>existingSummary := None\<rparr>) \<noteq> []
   \<and> tags (summaryData (generateSummary example_summarize
         (example_edit\<lparr>existingSummary := None\<rparr>))) = []
   \<and> chatId (example_edit\<lparr>chatId := []\<rparr>) = []
   \<and> summaryData (generateSummary example_summarize (example_edit\<lparr>chatId := []\<rparr>))
       = summaryData example_edit"
  using generateSummary_keeps_existing_tags
      [of example_edit example_summarize
          "\<lparr> subject = ''Physics'', knowledge_points = [''Optics''],
             summary = ''About lenses'', tags = [''generated''] \<rparr>"
          example_existing "[''midterm'']"]
    generateSummary_keeps_existing_tags
      [of "example_edit\<lparr>existingSummary := None\<rparr>" example_summarize
          "\<lparr> subject = ''Physics'', knowledge_points = [''Optics''],
             summary = ''About lenses'', tags = [''generated''] \<rparr>"]
    generateSummary_keeps_existing_tags
      [of "example_edit\<lparr>chatId := []\<rparr>" example_summarize]
  by (simp add: example_edit_def initial_modal_state_def example_existing_def
      example_summarize_def)

section \<open>The modal: trimmed input\<close>

lemma dropWhile_all: "(\<forall>c\<in>set (dropWhile P xs). P c) \<longleftrightarrow> (\<forall>c\<in>set xs. P c)"
  by (induction xs) auto

lemma trim_empty_iff: "trim x = [] \<longleftrightarrow> (\<forall>c\<in>set x. is_whitespace c)"
  by (simp add: trim_def dropWhile_eq_Nil_conv dropWhile_all)

lemma trim_decompose:
  "x = takeWhile is_whitespace x @ trim x
         @ rev (takeWhile is_whitespace (rev (dropWhile is_whitespace x)))"
proof -
  let ?r = "rev (dropWhile is_whitespace x)"
  have "dropWhile is_whitespace x = rev ?r" by simp
  also have "\<dots> = rev (takeWhile is_whitespace ?r @ dropWhile is_whitespace ?r)"
    by (simp only: takeWhile_dropWhile_id)
  also have "\<dots> = trim x @ rev (takeWhile is_whitespace ?r)"
    by (simp only: rev_append trim_def)
  finally have "dropWhile is_whitespace x = trim x @ rev (takeWhile is_whitespace ?r)" .
  then have "takeWhile is_whitespace x @ dropWhile is_whitespace x
      = takeWhile is_whitespace x @ trim x @ rev (takeWhile is_whitespace ?r)"
    by (simp only:)
  then show ?thesis by (simp only: takeWhile_dropWhile_id)
qed

lemma trim_ends:
  assumes "trim x \<noteq> []"
  shows "\<not> is_whitespace (hd (trim x)) \<and> \<not> is_whitespace (last (trim x))"
proof -
  let ?d = "dropWhile is_whitespace x"
  let ?e = "dropWhile is_whitespace (rev ?d)"
  from assms have e: "?e \<noteq> []" by (simp add: trim_def)
  then have d: "?d \<noteq> []"
    by (metis dropWhile.simps(1) rev.simps(1))
  have "last (trim x) = hd ?e" using e by (simp add: trim_def last_rev)
  moreover have "\<not> is_whitespace (hd ?e)" using e by (rule hd_dropWhile)
  moreover have "hd (trim x) = last ?e" using e by (simp add: trim_def hd_rev)
  moreover have "last ?e = last (rev ?d)"
    using e by (metis append_Nil2 last_appendR takeWhile_dropWhile_id)
  moreover have "last (rev ?d) = hd ?d" using d by (simp add: last_rev)
  moreover have "\<not> is_whitespace (hd ?d)" using d by (rule hd_dropWhile)
  ultimately show ?thesis by simp
qed


lemma trim_surrounded:
  "\<exists>pre post. x = pre @ trim x @ post \<and> list_all is_whitespace pre
     \<and> list_all is_whitespace post"
proof (intro exI conjI)
  show "x = takeWhile is_whitespace x @ trim x
         @ rev (takeWhile is_whitespace (rev (dropWhile is_whitespace x)))"
    by (rule trim_decompose)
  show "list_all is_whitespace (takeWhile is_whitespace x)"
    by (auto simp: list_all_iff dest: set_takeWhileD)
  show "list_all is_whitespace
      (rev (takeWhile is_whitespace (rev (dropWhile is_whitespace x))))"
    by (auto simp: list_all_iff dest: set_takeWhileD)
qed

text \<open>
  Claim C10. \<open>trim\<close> drops white space at both ends of the input and nothing else. The
  modal's add functions do nothing (the list and the input field stay as they are)
  when the input is empty or white space only, and also when the trimmed input is in
  the list already; otherwise they append the trimmed input to the list and clear the
  input field.
\<close>

theorem modal_add_trims_input:
  "(\<exists>pre post. x = pre @ trim x @ post \<and> list_all is_whitespace pre
       \<and> list_all is_whitespace post)
   \<and> (trim x \<noteq> [] \<longrightarrow> \<not> is_whitespace (hd (trim x)) \<and> \<not> is_whitespace (last (trim x)))
   \<and> (list_all is_whitespace (newKnowledgePoint s) \<longrightarrow> addKnowledgePoint_modal s = s)
   \<and> (list_all is_whitespace (newTag s) \<longrightarrow> addTag_modal s = s)
   \<and> (trim (newKnowledgePoint s) \<in> set (knowledge_points (summaryData s)) \<longrightarrow>
        addKnowledgePoint_modal s = s)
   \<and> (trim (newTag s) \<in> set (tags (summaryData s)) \<longrightarrow> addTag_modal s = s)
   \<and> (\<not> list_all is_whitespace (newKnowledgePoint s)
        \<and> trim (newKnowledgePoint s) \<notin> set (knowledge_points (summaryData s)) \<longrightarrow>
        addKnowledgePoint_modal s
          = s\<lparr>summaryData :=
                (summaryData s)\<lparr>knowledge_points :=
                   knowledge_points (summaryData s) @ [trim (newKnowledgePoint s)]\<rparr>,
              newKnowledgePoint := []\<rparr>)
   \<and> (\<not> list_all is_whitespace (newTag s)
        \<and> trim (newTag s) \<notin> set (tags (summaryData s)) \<longrightarrow>
        addTag_modal s
          = s\<lparr>summaryData := (summaryData s)\<lparr>tags := tags (summaryData s) @ [trim (newTag s)]\<rparr>,
              newTag := []\<rparr>)"
  using trim_surrounded [of x] trim_ends [of x]
  by (simp add: addKnowledgePoint_modal_def addTag_modal_def trim_empty_iff list_all_iff)


theorem modal_add_trims_input_witness:
  "trim ''  Sets '' = ''Sets''
   \<and> \<not> list_all is_whitespace (newKnowledgePoint example_edit)
   \<and> trim (newKnowledgePoint example_edit) \<notin> set (knowledge_points (summaryData example_edit))
   \<and> knowledge_points (summaryData (addKnowledgePoint_modal example_edit))
       = [''Algebra'', ''Sets'']
   \<and> newKnowledgePoint (addKnowledgePoint_modal example_edit) = []
   \<and> trim (newTag example_edit) \<in> set (tags (summaryData example_edit))
   \<and> addTag_modal example_edit = example_edit
   \<and> list_all is_whitespace (newKnowledgePoint (example_edit\<lparr>newKnowledgePoint := ''  ''\<rparr>))
   \<and> addKnowledgePoint_modal (example_edit\<lparr>newKnowledgePoint := ''  ''\<rparr>)
       = example_edit\<lparr>newKnowledgePoint := ''  ''\<rparr>
   \<and> list_all is_whitespace (newTag (example_edit\<lparr>newTag := []\<rparr>))
   \<and> addTag_modal (example_edit\<lparr>newTag := []\<rparr>) = example_edit\<lparr>newTag := []\<rparr>"
proof -
  have input: "newKnowledgePoint example_edit = ''  Sets ''" "newTag example_edit = '' exam''"
    and lists: "knowledge_points (summaryData example_edit) = [''Algebra'']"
      "tags (summaryData example_edit) = [''exam'']"
    by (simp_all add: example_edit_def)
  have trimmed: "trim ''  Sets '' = ''Sets''" "trim '' exam'' = ''exam''"
    by (simp_all add: trim_def is_whitespace_def)
  have h1: "\<not> list_all is_whitespace (newKnowledgePoint example_edit)"
    by (simp add: input is_whitespace_def)
  have h2: "trim (newKnowledgePoint example_edit)
      \<notin> set (knowledge_points (summaryData example_edit))"
    by (simp add: input lists trimmed)
  have h3: "trim (newTag example_edit) \<in> set (tags (summaryData example_edit))"
    by (simp add: input lists trimmed)
  have h4: "list_all is_whitespace (newKnowledgePoint (example_edit\<lparr>newKnowledgePoint := ''  ''\<rparr>))"
    by (simp add: is_whitespace_def)
  have h5: "list_all is_whitespace (newTag (example_edit\<lparr>newTag := []\<rparr>))"
    by simp
  note plain = modal_add_trims_input [where s = example_edit and x = "''  Sets ''"]
  from plain have "\<not> list_all is_whitespace (newKnowledgePoint example_edit)
        \<and> trim (newKnowledgePoint example_edit)
            \<notin> set (knowledge_points (summaryData example_edit)) \<longrightarrow>
      addKnowledgePoint_modal example_edit
        = example_edit\<lparr>summaryData :=
              (summaryData example_edit)\<lparr>knowledge_points :=
                 knowledge_points (summaryData example_edit)
                   @ [trim (newKnowledgePoint example_edit)]\<rparr>,
            newKnowledgePoint := []\<rparr>"
    by (elim conjE)
  with h1 h2 have added: "addKnowledgePoint_modal example_edit
        = example_edit\<lparr>summaryData :=
              (summaryData example_edit)\<lparr>knowledge_points :=
                 knowledge_points (summaryData example_edit)
                   @ [trim (newKnowledgePoint example_edit)]\<rparr>,
            newKnowledgePoint := []\<rparr>"
    by (simp only: simp_thms)
  have c1: "knowledge_points (summaryData (addKnowledgePoint_modal example_edit))
      = [''Algebra'', ''Sets'']"
    by (simp add: added input lists trimmed)
  have c2: "newKnowledgePoint (addKnowledgePoint_modal example_edit) = []"
    by (simp add: added)
  from plain have "trim (newTag example_edit) \<in> set (tags (summaryData example_edit)) \<longrightarrow>
      addTag_modal example_edit = example_edit"
    by (elim conjE)
  with h3 have c3: "addTag_modal example_edit = example_edit"
    by (rule rev_mp)
  from modal_add_trims_input
    [where s = "example_edit\<lparr>newKnowledgePoint := ''  ''\<rparr>" and x = "''  Sets ''"]
  have "list_all is_whitespace (newKnowledgePoint (example_edit\<lparr>newKnowledgePoint := ''  ''\<rparr>))
      \<longrightarrow> addKnowledgePoint_modal (example_edit\<lparr>newKnowledgePoint := ''  ''\<rparr>)
          = example_edit\<lparr>newKnowledgePoint := ''  ''\<rparr>"
    by (elim conjE)
  with h4 have c4: "addKnowledgePoint_modal (example_edit\<lparr>newKnowledgePoint := ''  ''\<rparr>)
      = example_edit\<lparr>newKnowledgePoint := ''  ''\<rparr>"
    by (rule rev_mp)
  from modal_add_trims_input [where s = "example_edit\<lparr>newTag := []\<rparr>" and x = "''  Sets ''"]
  have "list_all is_whitespace (newTag (example_edit\<lparr>newTag := []\<rparr>))
      \<longrightarrow> addTag_modal (example_edit\<lparr>newTag := []\<rparr>) = example_edit\<lparr>newTag := []\<rparr>"
    by (elim conjE)
  with h5 have c5: "addTag_modal (example_edit\<lparr>newTag := []\<rparr>) = example_edit\<lparr>newTag := []\<rparr>"
    by (rule rev_mp)
  from trimmed(1) h1 h2 c1 c2 h3 c3 h4 c4 h5 c5 show ?thesis
    by (intro conjI)
qed

section \<open>The mistake book: overall accuracy\<close>

lemma round_half_even_int [simp]: "round_half_even (of_int z) = z"
  by (simp add: round_half_even_def)

lemma round_double_nat:
  assumes "n < 2 ^ 53"
  shows "round_double (of_nat n) = Finite (of_nat n)"
proof (cases "n = 0")
  case True
  then show ?thesis by (simp add: round_double_def)
next
  case False
  then have pos: "0 < int n" by simp
  let ?b = "bitlen (int n)"
  from bitlen_bounds [OF pos]
  have low: "2 ^ nat (?b - 1) \<le> int n" and high: "int n < 2 ^ nat ?b" by simp_all
  from assms have "int n < 2 ^ 53"
    by (metis of_nat_less_iff of_nat_numeral of_nat_power)
  with low have "(2::int) ^ nat (?b - 1) < 2 ^ 53" by (rule le_less_trans)
  then have "nat (?b - 1) < 53" by (rule power_less_imp_less_exp [rotated]) simp
  then have b_le: "?b \<le> 53" by simp
  from pos have b_pos: "1 \<le> ?b" by (simp add: bitlen_alt_def)
  define k where "k = nat (53 - ?b)"
  have one: "(1::rat) \<le> of_nat n" using False by simp
  have fl: "floor_log2 (of_nat n) = ?b - 1"
    using one by (simp add: floor_log2_def)
  have q: "max (floor_log2 (of_nat n) - 52) (- 1074) = - int k"
    using b_le b_pos by (simp add: fl k_def)
  have p: "pow2 (- int k) = 1 / 2 ^ k"
    by (cases "k = 0") (simp_all add: pow2_def)
  have scaled: "(of_nat n :: rat) / pow2 (- int k) = of_int (int n * 2 ^ k)"
    by (simp add: p)
  have unscaled: "of_int (int n * 2 ^ k) * pow2 (- int k) = (of_nat n :: rat)"
    by (simp add: p)
  have small: "\<not> 1024 \<le> floor_log2 (of_nat n)"
    using b_le by (simp add: fl)
  have nz: "(of_nat n :: rat) \<noteq> 0" "(0::rat) < of_nat n" using False by simp_all
  show ?thesis
    unfolding round_double_def Let_def
    by (simp only: nz if_False if_True abs_of_nat q scaled round_half_even_int unscaled small
        simp_thms)
qed

lemma count_sum_exact:
  "a + sum_list ns < 2 ^ 53 \<Longrightarrow>
   foldl js_add (Finite (of_nat a)) (map (\<lambda>n. Finite (of_nat n)) ns)
     = Finite (of_nat (a + sum_list ns))"
proof (induction ns arbitrary: a)
  case Nil
  show ?case by simp
next
  case (Cons n ns)
  from Cons.prems have "a + n < 2 ^ 53" by simp
  then have "js_add (Finite (of_nat a)) (Finite (of_nat n)) = Finite (of_nat (a + n))"
    using round_double_nat [of "a + n"] by simp
  moreover from Cons.prems have "(a + n) + sum_list ns < 2 ^ 53" by simp
  ultimately show ?case using Cons.IH [of "a + n"] by (simp add: add.assoc)
qed

lemma derived_total_fold:
  "derived_total s = foldl js_add (Finite 0) (map total (Object_values (subjectStats s)))"
  by (simp add: derived_total_def foldl_map)

lemma derived_total_counts:
  assumes "map total (Object_values (subjectStats s)) = map (\<lambda>n. Finite (of_nat n)) ns"
    and "sum_list ns < 2 ^ 53"
  shows "derived_total s = Finite (of_nat (sum_list ns))"
  using count_sum_exact [of 0 ns] assms by (simp add: derived_total_fold)

lemma js_divide_positive:
  "js_greater t (Finite 0) \<Longrightarrow> js_divide (Finite x) t \<noteq> None \<and> t \<noteq> Finite 0"
  by (cases t) auto

lemma overall_accuracy_positive:
  assumes "js_greater (derived_total s) (Finite 0)"
  shows "\<exists>q. js_divide (Finite (of_nat (length (mistakeChats s)))) (derived_total s) = Some q
    \<and> overall_accuracy s = Some (Math_round (js_mul (js_sub (Finite 1) q) (Finite 100)))"
  using assms js_divide_positive [OF assms, of "of_nat (length (mistakeChats s))"]
  by (auto simp: overall_accuracy_def totalMistakes_def)

lemma round_double_small_numbers:
  "round_double 1 = Finite 1" "round_double 100 = Finite 100"
  using round_double_nat [of 1] round_double_nat [of 100] by simp_all

lemma Math_round_int: "Math_round (Finite (of_int z)) = Finite (of_int z)"
proof -
  have "\<lfloor>(of_int z :: rat) + 1 / 2\<rfloor> = z"
    by (rule floor_unique) simp_all
  then show ?thesis by simp
qed

lemma overall_accuracy_infinite_total:
  "derived_total s = PosInf \<Longrightarrow> overall_accuracy s = Some (Finite 100)"
  using Math_round_int [of 100]
  by (simp add: overall_accuracy_def round_double_small_numbers del: Math_round.simps)

text \<open>
  Claim C8. The derived total is the left-to-right sum of the per-subject totals in
  double precision; for counts whose sum stays below \<open>2^53\<close> it is their exact sum. The
  numerator is the number of mistake chats. When the derived total is zero the panel
  shows 100. When it is positive the panel shows
  \<open>Math.round((1 - mistakeChats.length / total) * 100)\<close>, computed in double precision,
  and the divisor of that division is not zero: for a finite positive total the
  quotient is the rounded \<open>mistakeChats.length / total\<close>, for an infinite total the
  panel shows 100. No state makes the panel divide by zero.
\<close>

theorem overall_accuracy_guarded:
  "derived_total s = foldl js_add (Finite 0) (map total (Object_values (subjectStats s)))
   \<and> (map total (Object_values (subjectStats s)) = map (\<lambda>n. Finite (of_nat n)) ns
        \<and> sum_list ns < 2 ^ 53
      \<longrightarrow> derived_total s = Finite (of_nat (sum_list ns)))
   \<and> totalMistakes s = length (mistakeChats s)
   \<and> (derived_total s = Finite 0 \<longrightarrow> overall_accuracy s = Some (Finite 100))
   \<and> (js_greater (derived_total s) (Finite 0) \<longrightarrow>
        derived_total s \<noteq> Finite 0
        \<and> (\<exists>q. js_divide (Finite (of_nat (length (mistakeChats s)))) (derived_total s) = Some q
              \<and> overall_accuracy s
                  = Some (Math_round (js_mul (js_sub (Finite 1) q) (Finite 100)))))
   \<and> (derived_total s = Finite t \<and> 0 < t \<longrightarrow>
        overall_accuracy s
          = Some (Math_round (js_mul (js_sub (Finite 1)
              (round_double (of_nat (length (mistakeChats s)) / t))) (Finite 100))))
   \<and> (derived_total s = PosInf \<longrightarrow> overall_accuracy s = Some (Finite 100))
   \<and> overall_accuracy s \<noteq> None"
proof (intro conjI impI)
  show "derived_total s = foldl js_add (Finite 0) (map total (Object_values (subjectStats s)))"
    by (rule derived_total_fold)
next
  assume "map total (Object_values (subjectStats s)) = map (\<lambda>n. Finite (of_nat n)) ns
      \<and> sum_list ns < 2 ^ 53"
  then show "derived_total s = Finite (of_nat (sum_list ns))"
    by (simp add: derived_total_counts)
next
  show "totalMistakes s = length (mistakeChats s)"
    by (simp add: totalMistakes_def)
next
  assume "derived_total s = Finite 0"
  then show "overall_accuracy s = Some (Finite 100)"
    by (simp add: overall_accuracy_def)
next
  assume "js_greater (derived_total s) (Finite 0)"
  then show "derived_total s \<noteq> Finite 0"
    using js_divide_positive by blast
next
  assume "js_greater (derived_total s) (Finite 0)"
  then show "\<exists>q. js_divide (Finite (of_nat (length (mistakeChats s)))) (derived_total s) = Some q
      \<and> overall_accuracy s = Some (Math_round (js_mul (js_sub (Finite 1) q) (Finite 100)))"
    by (rule overall_accuracy_positive)
next
  assume "derived_total s = Finite t \<and> 0 < t"
  then show "overall_accuracy s
      = Some (Math_round (js_mul (js_sub (Finite 1)
          (round_double (of_nat (length (mistakeChats s)) / t))) (Finite 100)))"
    by (simp add: overall_accuracy_def totalMistakes_def)
next
  assume "derived_total s = PosInf"
  then show "overall_accuracy s = Some (Finite 100)"
    by (rule overall_accuracy_infinite_total)
next
  show "overall_accuracy s \<noteq> None"
  proof (cases "js_greater (derived_total s) (Finite 0)")
    case True
    from overall_accuracy_positive [OF this] show ?thesis by auto
  next
    case False
    then show ?thesis by (simp add: overall_accuracy_def)
  qed
qed

theorem overall_accuracy_guarded_witness:
  "derived_total (mistake_state_of 0 []) = Finite 0
   \<and> overall_accuracy (mistake_state_of 0 []) = Some (Finite 100)
   \<and> derived_total (mistake_state_of 1 [Finite (2 ^ 53), Finite 1, Finite (- (2 ^ 53))])
       = Finite 0
   \<and> overall_accuracy (mistake_state_of 1 [Finite (2 ^ 53), Finite 1, Finite (- (2 ^ 53))])
       = Some (Finite 100)
   \<and> map total (Object_values (subjectStats (mistake_state_of 17 [Finite 40, Finite 2])))
       = map (\<lambda>n. Finite (of_nat n)) [40, 2]
   \<and> sum_list [40, 2 :: nat] < 2 ^ 53
   \<and> derived_total (mistake_state_of 17 [Finite 40, Finite 2]) = Finite 42
   \<and> derived_total (mistake_state_of 17 [Finite 40]) = Finite 40
   \<and> js_greater (derived_total (mistake_state_of 17 [Finite 40])) (Finite 0)
   \<and> length (mistakeChats (mistake_state_of 17 [Finite 40])) = 17
   \<and> round_double (17 / 40) = Finite (7656119366529843 / 18014398509481984)
   \<and> overall_accuracy (mistake_state_of 17 [Finite 40]) = Some (Finite 57)
   \<and> length (mistakeChats (mistake_state_of 3 [Finite 40])) = 3
   \<and> overall_accuracy (mistake_state_of 3 [Finite 40]) = Some (Finite 93)
   \<and> derived_total (mistake_state_of 3 [Finite 40, PosInf]) = PosInf
   \<and> overall_accuracy (mistake_state_of 3 [Finite 40, PosInf]) = Some (Finite 100)"
proof -
  let ?empty = "mistake_state_of 0 []"
  let ?cancel = "mistake_state_of 1 [Finite (2 ^ 53), Finite 1, Finite (- (2 ^ 53))]"
  let ?two = "mistake_state_of 17 [Finite 40, Finite 2]"
  let ?many = "mistake_state_of 17 [Finite 40]"
  let ?few = "mistake_state_of 3 [Finite 40]"
  let ?huge = "mistake_state_of 3 [Finite 40, PosInf]"
  have d_empty: "derived_total ?empty = Finite 0"
    by code_simp
  from overall_accuracy_guarded [of ?empty "[]" 40]
  have "derived_total ?empty = Finite 0 \<longrightarrow> overall_accuracy ?empty = Some (Finite 100)"
    by (elim conjE)
  with d_empty have a_empty: "overall_accuracy ?empty = Some (Finite 100)"
    by (rule rev_mp)
  have d_cancel: "derived_total ?cancel = Finite 0"
    by code_simp
  from overall_accuracy_guarded [of ?cancel "[]" 40]
  have "derived_total ?cancel = Finite 0 \<longrightarrow> overall_accuracy ?cancel = Some (Finite 100)"
    by (elim conjE)
  with d_cancel have a_cancel: "overall_accuracy ?cancel = Some (Finite 100)"
    by (rule rev_mp)
  have counts: "map total (Object_values (subjectStats ?two))
      = map (\<lambda>n. Finite (of_nat n)) [40, 2]"
    by (simp add: mistake_state_of_def Object_values_def)
  have bound: "sum_list [40, 2 :: nat] < 2 ^ 53"
    by simp
  from overall_accuracy_guarded [of ?two "[40, 2]" 40]
  have "map total (Object_values (subjectStats ?two)) = map (\<lambda>n. Finite (of_nat n)) [40, 2]
        \<and> sum_list [40, 2 :: nat] < 2 ^ 53
      \<longrightarrow> derived_total ?two = Finite (of_nat (sum_list [40, 2]))"
    by (elim conjE)
  with counts bound have d_two: "derived_total ?two = Finite 42"
    by simp
  have d_many: "derived_total ?many = Finite 40"
    by code_simp
  have positive: "js_greater (derived_total ?many) (Finite 0)"
    by (simp add: d_many)
  have n_many: "length (mistakeChats ?many) = 17"
    by (simp add: mistake_state_of_def)
  have quotient: "round_double (17 / 40) = Finite (7656119366529843 / 18014398509481984)"
    by code_simp
  from overall_accuracy_guarded [of ?many "[40]" 40]
  have "derived_total ?many = Finite 40 \<and> (0::rat) < 40 \<longrightarrow>
      overall_accuracy ?many
        = Some (Math_round (js_mul (js_sub (Finite 1)
            (round_double (of_nat (length (mistakeChats ?many)) / 40))) (Finite 100)))"
    by (elim conjE)
  with d_many have "overall_accuracy ?many
      = Some (Math_round (js_mul (js_sub (Finite 1)
          (round_double (of_nat (length (mistakeChats ?many)) / 40))) (Finite 100)))"
    by simp
  moreover have "Math_round (js_mul (js_sub (Finite 1) (round_double (17 / 40))) (Finite 100))
      = Finite 57"
    by code_simp
  ultimately have a_many: "overall_accuracy ?many = Some (Finite 57)"
    by (simp add: n_many)
  have d_few: "derived_total ?few = Finite 40"
    by code_simp
  have n_few: "length (mistakeChats ?few) = 3"
    by (simp add: mistake_state_of_def)
  from overall_accuracy_guarded [of ?few "[40]" 40]
  have "derived_total ?few = Finite 40 \<and> (0::rat) < 40 \<longrightarrow>
      overall_accuracy ?few
        = Some (Math_round (js_mul (js_sub (Finite 1)
            (round_double (of_nat (length (mistakeChats ?few)) / 40))) (Finite 100)))"
    by (elim conjE)
  with d_few have "overall_accuracy ?few
      = Some (Math_round (js_mul (js_sub (Finite 1)
          (round_double (of_nat (length (mistakeChats ?few)) / 40))) (Finite 100)))"
    by simp
  moreover have "Math_round (js_mul (js_sub (Finite 1) (round_double (3 / 40))) (Finite 100))
      = Finite 93"
    by code_simp
  ultimately have a_few: "overall_accuracy ?few = Some (Finite 93)"
    by (simp add: n_few)
  have d_huge: "derived_total ?huge = PosInf"
    by code_simp
  from overall_accuracy_guarded [of ?huge "[]" 40]
  have "derived_total ?huge = PosInf \<longrightarrow> overall_accuracy ?huge = Some (Finite 100)"
    by (elim conjE)
  with d_huge have a_huge: "overall_accuracy ?huge = Some (Finite 100)"
    by (rule rev_mp)
  from d_empty a_empty d_cancel a_cancel counts bound d_two d_many positive n_many quotient
    a_many n_few a_few d_huge a_huge
  show ?thesis by (intro conjI)
qed

end
